theory Spec2Isabelle
  imports Main "HOL-Library.AList"
begin

section \<open>Strings and the three input patterns\<close>

text \<open>
  JavaScript strings are modelled as \<open>string\<close>; a character stands for one code unit
  below 256. \<open>isSpace\<close> is the white space that \<open>String.prototype.trim\<close> and the
  pattern class \<open>\s\<close> recognise in that range (TAB, LF, VT, FF, CR, SPACE, NBSP).
\<close>

definition isSpace :: "char \<Rightarrow> bool" where
  "isSpace c = (c \<in> set [CHR 0x09, CHR 0x0A, CHR 0x0B, CHR 0x0C, CHR 0x0D, CHR 0x20, CHR 0xA0])"

definition trim :: "string \<Rightarrow> string" where
  "trim s = rev (dropWhile isSpace (rev (dropWhile isSpace s)))"

definition isDigit :: "char \<Rightarrow> bool" where
  "isDigit c = (c \<in> set ''0123456789'')"

definition isAlpha :: "char \<Rightarrow> bool" where
  "isAlpha c = (c \<in> set ''abcdefghijklmnopqrstuvwxyzABCDEFGHIJKLMNOPQRSTUVWXYZ'')"

text \<open>The class \<open>[a-zA-Z0-9_!#$%&'*+/=?`{|}~^.-]\<close> of the local part of an email.\<close>

definition isLocalChar :: "char \<Rightarrow> bool" where
  "isLocalChar c = (isAlpha c \<or> isDigit c \<or>
     c \<in> set [CHR ''_'', CHR ''!'', CHR ''#'', CHR ''$'', CHR ''%'', CHR ''&'', CHR 0x27,
               CHR ''*'', CHR ''+'', CHR ''/'', CHR ''='', CHR ''?'', CHR 0x60, CHR ''{'',
               CHR ''|'', CHR ''}'', CHR ''~'', CHR ''^'', CHR ''.'', CHR ''-''])"

text \<open>The class \<open>[a-zA-Z0-9-]\<close> of a domain label.\<close>

definition isLabelChar :: "char \<Rightarrow> bool" where
  "isLabelChar c = (isAlpha c \<or> isDigit c \<or> c = CHR ''-'')"

text \<open>\<open>splitOn c s\<close> is \<open>s.split(c)\<close>: the pieces of \<open>s\<close> between the occurrences of \<open>c\<close>.\<close>

fun splitOn :: "char \<Rightarrow> string \<Rightarrow> string list" where
  "splitOn c [] = [[]]"
| "splitOn c (x # xs) =
     (if x = c then [] # splitOn c xs
      else (case splitOn c xs of p # ps \<Rightarrow> (x # p) # ps | [] \<Rightarrow> [[x]]))"

text \<open>
  \<open>isValidEmail\<close>: the test of
  \<open>/^(?:[a-zA-Z0-9_!#$%&'*+/=?`{|}~^.-]+)@(?:[a-zA-Z0-9-]+\.)+[a-zA-Z]{2,}$/u\<close>
  on \<open>value.trim()\<close>. No class of the pattern contains \<open>@\<close>, so a match has exactly one
  \<open>@\<close>; the only dots of the domain are those closing a label, so the domain split at its
  dots is one or more non-empty labels followed by a last piece of two or more letters.
\<close>

definition isValidDomain :: "string \<Rightarrow> bool" where
  "isValidDomain d =
     (let ls = splitOn (CHR ''.'') d in
      2 \<le> length ls \<and>
      list_all (\<lambda>l. l \<noteq> [] \<and> list_all isLabelChar l) (butlast ls) \<and>
      2 \<le> length (last ls) \<and> list_all isAlpha (last ls))"

definition isValidEmail :: "string \<Rightarrow> bool" where
  "isValidEmail v =
     (case splitOn (CHR ''@'') (trim v) of
        [l, d] \<Rightarrow> l \<noteq> [] \<and> list_all isLocalChar l \<and> isValidDomain d
      | _ \<Rightarrow> False)"

text \<open>
  \<open>isValidPhone\<close>: the test of \<open>/^[6-9]\d{9}$/\<close> on
  \<open>value.trim().replace(/[\s-]/g, '')\<close>.
\<close>

definition isValidPhone :: "string \<Rightarrow> bool" where
  "isValidPhone v =
     (case filter (\<lambda>c. \<not> (isSpace c \<or> c = CHR ''-'')) (trim v) of
        [] \<Rightarrow> False
      | c # cs \<Rightarrow> c \<in> set ''6789'' \<and> length cs = 9 \<and> list_all isDigit cs)"

text \<open>The test of \<open>/^[0-9]{6}$/\<close> on \<open>otp.trim()\<close>, as \<open>verifyOtp\<close> applies it.\<close>

definition isSixDigits :: "string \<Rightarrow> bool" where
  "isSixDigits t = (length t = 6 \<and> list_all isDigit t)"

definition isOtpFormat :: "string \<Rightarrow> bool" where
  "isOtpFormat otp = isSixDigits (trim otp)"

section \<open>Code hasher\<close>

text \<open>
  \<open>hashOtp\<close> encodes the code with \<open>TextEncoder\<close>, takes the platform's SHA-256 digest and
  prints it with \<open>bufferToHex\<close>. The digest is a primitive of the platform and is a
  parameter here (a function from bytes to bytes); the encoding and the printing are
  the source's.
\<close>

definition hexDigit :: "nat \<Rightarrow> char" where
  "hexDigit n = (''0123456789abcdef'') ! (n mod 16)"

definition bufferToHex :: "nat list \<Rightarrow> string" where
  "bufferToHex bytes = concat (map (\<lambda>byte. [hexDigit (byte div 16), hexDigit byte]) bytes)"

definition encode :: "string \<Rightarrow> nat list" where
  "encode s = concat (map (\<lambda>c. let n = (of_char c :: nat) in
       if n < 128 then [n] else [192 + n div 64, 128 + n mod 64]) s)"

definition hashOtp :: "(nat list \<Rightarrow> nat list) \<Rightarrow> string \<Rightarrow> string" where
  "hashOtp dg otp = bufferToHex (dg (encode otp))"

definition TEST_OTP :: string where
  "TEST_OTP = ''123456''"

section \<open>Data model\<close>

text \<open>
  A Firestore document is a finite map from field names to values. Reading a field of the
  JavaScript object gives \<open>None\<close> for \<open>undefined\<close>.
\<close>

datatype fval = FStr string | FBool bool | FTime int

type_synonym doc = "string \<rightharpoonup> fval"

text \<open>JavaScript truthiness of a field read (\<open>Boolean(x)\<close>, \<open>x && ...\<close>).\<close>

fun truthy :: "fval option \<Rightarrow> bool" where
  "truthy None = False"
| "truthy (Some (FBool b)) = b"
| "truthy (Some (FStr s)) = (s \<noteq> [])"
| "truthy (Some (FTime t)) = True"

record PendingOTP =
  otpHash :: string
  expiresAt :: int
  attempts :: nat
  userId :: string
  phoneNumber :: string

record SignupData =
  sd_fullName :: string
  sd_email :: string
  sd_password :: string
  sd_phoneNumber :: string

text \<open>What \<open>localStorage\<close> holds under a key: a plain string or a serialised object.\<close>

datatype stored = SText string | SProfile doc | SOtpTrace string string

text \<open>An error object of the authentication provider or of the document store.\<close>

datatype fb_error = FbError (fb_code: string) (fb_message: string)

text \<open>Calls issued to the backend authentication primitive, oldest first.\<close>

datatype auth_call =
    CreateUser string string
  | SignIn "fval option" string
  | SignOut

text \<open>
  The errors the customer flow throws, one constructor per message of the source:
  \<^item> \<open>InvalidEmailError\<close>: "Please enter a valid email address."
  \<^item> \<open>InvalidPhoneError\<close>: "Please enter a valid 10-digit phone number (India)."
  \<^item> \<open>WeakPasswordError\<close>: "Password must be at least 6 characters."
  \<^item> \<open>AlreadyRegisteredError\<close>: "This email is already registered. Please log in with your password instead."
  \<^item> \<open>NoPendingError\<close>: "No pending OTP verification."
  \<^item> \<open>ExpiredError\<close>: "OTP has expired. Please sign up again."
  \<^item> \<open>TooManyAttemptsError\<close>: "Too many incorrect attempts. Please sign up again."
  \<^item> \<open>FormatError\<close>: "Enter the 6-digit OTP."
  \<^item> \<open>IncorrectCodeError\<close>: "Incorrect OTP. Please try again."
  \<^item> \<open>NotFoundError\<close>: "No account found with this phone number. Please sign up first."
  \<^item> \<open>InvalidInputError\<close>: "Please enter a valid email address or phone number."
  \<^item> \<open>InvalidCredentialsError\<close>: "Invalid email/phone number or password."
  \<^item> \<open>BackendError m\<close>: an error of the provider or the store, with its message.
\<close>

datatype error =
    InvalidEmailError
  | InvalidPhoneError
  | WeakPasswordError
  | AlreadyRegisteredError
  | NoPendingError
  | ExpiredError
  | TooManyAttemptsError
  | FormatError
  | IncorrectCodeError
  | NotFoundError
  | InvalidInputError
  | InvalidCredentialsError
  | BackendError string

text \<open>
  The answers of the external collaborators during one operation: the client clock, the
  time \<open>serverTimestamp()\<close> resolves to, the backend's answers to create-credential and
  authenticate, whether a store write or read throws, the dependent-data queries, the
  bearer credential (\<open>None\<close> when \<open>getIdToken\<close> throws), whether an awaited sign-out
  throws, and the platform digest.
\<close>

record env =
  now :: int
  serverTimestamp :: int
  createUserWithEmailAndPassword :: "string \<Rightarrow> string \<Rightarrow> fb_error + string"
  signInWithEmailAndPassword :: "fval option \<Rightarrow> string \<Rightarrow> fb_error + string"
  setDocError :: "fb_error option"
  getDocFails :: bool
  getDocsFails :: bool
  getUserOrders :: "string \<Rightarrow> string list"
  getUserInquiries :: "string \<Rightarrow> string list"
  getIdToken :: "string option"
  signOutFails :: bool
  digest :: "nat list \<Rightarrow> nat list"

text \<open>
  The state: the \<open>user_profiles\<close> collection (an association list in the order a query
  returns it), \<open>localStorage\<close>, the log of backend authentication calls, the state of
  \<open>UserAuthProvider\<close> and the state of \<open>OwnerAuthProvider\<close>.
\<close>

record world =
  profiles :: "(string \<times> doc) list"
  localStorage :: "string \<rightharpoonup> stored"
  authCalls :: "auth_call list"
  user :: "doc option"
  pendingOtp :: "PendingOTP option"
  isSignup :: bool
  orders :: "string list"
  inquiries :: "string list"
  ownerAuthenticated :: bool
  ownerUserId :: "string option"
  ownerInitialized :: bool

definition USER_AUTH_STORAGE_KEY :: string where
  "USER_AUTH_STORAGE_KEY = ''wirebazaar-user''"

definition USER_OTP_STORAGE_KEY :: string where
  "USER_OTP_STORAGE_KEY = ''wirebazaar-otp''"

section \<open>Identity Directory\<close>

text \<open>\<open>setDoc(ref, data, { merge: true })\<close>: fields of \<open>data\<close> replace, all others stay.\<close>

definition setDocMerge :: "string \<Rightarrow> doc \<Rightarrow> (string \<times> doc) list \<Rightarrow> (string \<times> doc) list" where
  "setDocMerge ident data store =
     AList.update ident ((case map_of store ident of None \<Rightarrow> Map.empty | Some old \<Rightarrow> old) ++ data) store"

text \<open>\<open>profileData?.verified ?? false\<close>.\<close>

definition verifiedOrFalse :: "doc option \<Rightarrow> fval" where
  "verifiedOrFalse profileData =
     (case profileData of
        None \<Rightarrow> FBool False
      | Some pd \<Rightarrow> (case pd ''verified'' of None \<Rightarrow> FBool False | Some v \<Rightarrow> v))"

definition ensureUserProfileData :: "string \<Rightarrow> doc option \<Rightarrow> int \<Rightarrow> doc" where
  "ensureUserProfileData ident profileData ts =
     ([''uid'' \<mapsto> FStr ident] ++ (case profileData of None \<Rightarrow> Map.empty | Some pd \<Rightarrow> pd))
       (''verified'' \<mapsto> verifiedOrFalse profileData,
        ''updatedAt'' \<mapsto> FTime ts,
        ''createdAt'' \<mapsto> FTime ts)"

definition ensureUserProfileExists ::
  "string \<Rightarrow> doc option \<Rightarrow> env \<Rightarrow> (string \<times> doc) list \<Rightarrow> fb_error + (string \<times> doc) list" where
  "ensureUserProfileExists ident profileData e store =
     (case setDocError e of
        Some err \<Rightarrow> Inl err
      | None \<Rightarrow> Inr (setDocMerge ident (ensureUserProfileData ident profileData (serverTimestamp e)) store))"

definition saveUserProfile ::
  "string \<Rightarrow> doc \<Rightarrow> env \<Rightarrow> (string \<times> doc) list \<Rightarrow> fb_error + (string \<times> doc) list" where
  "saveUserProfile ident profileData e store =
     (case setDocError e of
        Some err \<Rightarrow> Inl err
      | None \<Rightarrow> Inr (setDocMerge ident
                 (([''uid'' \<mapsto> FStr ident] ++ profileData)(''updatedAt'' \<mapsto> FTime (serverTimestamp e)))
                 store))"

text \<open>\<open>getUserProfileData\<close>: the document, or \<open>null\<close> when it is absent or the read throws.\<close>

definition getUserProfileData :: "string \<Rightarrow> env \<Rightarrow> (string \<times> doc) list \<Rightarrow> doc option" where
  "getUserProfileData ident e store = (if getDocFails e then None else map_of store ident)"

text \<open>
  \<open>findUserByPhoneNumber\<close>: the first document of the query
  \<open>where('phoneNumber', '==', phoneNumber)\<close>; \<open>null\<close> when there is none or the query
  throws. The result is \<open>(data.uid || doc.id, data.email)\<close>.
\<close>

definition findUserByPhoneNumber ::
  "string \<Rightarrow> env \<Rightarrow> (string \<times> doc) list \<Rightarrow> (fval \<times> fval option) option" where
  "findUserByPhoneNumber phone e store =
     (if getDocsFails e then None
      else (case filter (\<lambda>(k, d). d ''phoneNumber'' = Some (FStr phone)) store of
              [] \<Rightarrow> None
            | (k, d) # _ \<Rightarrow>
                Some (case d ''uid'' of
                        None \<Rightarrow> FStr k
                      | Some v \<Rightarrow> if truthy (Some v) then v else FStr k,
                      d ''email'')))"

section \<open>Customer Auth Flow\<close>

text \<open>
  Every operation takes the answers of the collaborators and the state, and returns its
  outcome with the state it leaves: a thrown error is \<open>Inl\<close>, and the state is returned
  in both cases because a failing call may already have changed it.

  The operations are callbacks that close over the state of the last render. A call is
  taken to run after the render that follows the previous state change, so the
  \<open>pendingOtp\<close> and \<open>user\<close> it reads are the current ones, and calls do not interleave.
  The auth-state listener of \<open>UserAuthProvider\<close>, the password reset and the phone-number
  change are not part of the model.
\<close>

text \<open>\<open>new Error(error.message || fallback)\<close> for an error of the provider or the store.\<close>

definition wrapMessage :: "string \<Rightarrow> fb_error \<Rightarrow> error" where
  "wrapMessage fallback err = BackendError (if fb_message err = [] then fallback else fb_message err)"

text \<open>
  \<open>loadUserData\<close>: \<open>getUserOrders\<close> and \<open>getUserInquiries\<close> answer \<open>[]\<close> on a failure of
  their own, so the two lists are always set.
\<close>

definition loadUserData :: "string \<Rightarrow> env \<Rightarrow> world \<Rightarrow> world" where
  "loadUserData ident e w = w\<lparr>orders := getUserOrders e ident, inquiries := getUserInquiries e ident\<rparr>"

text \<open>The derived boolean \<open>Boolean(user && user.verified)\<close>.\<close>

definition isAuthenticated :: "world \<Rightarrow> bool" where
  "isAuthenticated w = (case user w of None \<Rightarrow> False | Some u \<Rightarrow> truthy (u ''verified''))"

text \<open>
  The part of \<open>signup\<close> after the Account Identifier is known: the profile upsert with
  \<open>verified: false\<close>, the Pending Verification and its trace in \<open>localStorage\<close>.
\<close>

definition signupIssue :: "SignupData \<Rightarrow> env \<Rightarrow> string \<Rightarrow> world \<Rightarrow> (error + unit) \<times> world" where
  "signupIssue data e ident w =
     (case ensureUserProfileExists ident
             (Some [''fullName'' \<mapsto> FStr (sd_fullName data),
                    ''email'' \<mapsto> FStr (sd_email data),
                    ''phoneNumber'' \<mapsto> FStr (sd_phoneNumber data),
                    ''verified'' \<mapsto> FBool False])
             e (profiles w) of
        Inl err \<Rightarrow> (Inl (wrapMessage ''Signup failed. Please try again.'' err), w\<lparr>isSignup := False\<rparr>)
      | Inr store \<Rightarrow>
          (Inr (),
           w\<lparr>profiles := store,
             pendingOtp := Some \<lparr>otpHash = hashOtp (digest e) TEST_OTP,
                                 expiresAt = now e + 10 * 60 * 1000,
                                 attempts = 0,
                                 userId = ident,
                                 phoneNumber = sd_phoneNumber data\<rparr>,
             localStorage := (localStorage w)
                (USER_OTP_STORAGE_KEY \<mapsto> SOtpTrace ident (sd_phoneNumber data)),
             isSignup := False\<rparr>))"

definition signup :: "SignupData \<Rightarrow> env \<Rightarrow> world \<Rightarrow> (error + unit) \<times> world" where
  "signup data e w =
     (if \<not> isValidEmail (sd_email data) then (Inl InvalidEmailError, w)
      else if \<not> isValidPhone (sd_phoneNumber data) then (Inl InvalidPhoneError, w)
      else if length (sd_password data) < 6 then (Inl WeakPasswordError, w)
      else
        let w1 = w\<lparr>authCalls := authCalls w @ [CreateUser (sd_email data) (sd_password data)]\<rparr> in
        (case createUserWithEmailAndPassword e (sd_email data) (sd_password data) of
           Inr ident \<Rightarrow> signupIssue data e ident w1
         | Inl err \<Rightarrow>
             if fb_code err = ''auth/email-already-in-use'' then
               let w2 = w1\<lparr>authCalls := authCalls w1 @
                             [SignIn (Some (FStr (sd_email data))) (sd_password data)]\<rparr> in
               (case signInWithEmailAndPassword e (Some (FStr (sd_email data))) (sd_password data) of
                  Inr ident \<Rightarrow> signupIssue data e ident w2
                | Inl _ \<Rightarrow> (Inl AlreadyRegisteredError, w2\<lparr>isSignup := False\<rparr>))
             else (Inl (wrapMessage ''Signup failed. Please try again.'' err), w1\<lparr>isSignup := False\<rparr>)))"

text \<open>
  The part of \<open>verifyOtp\<close> after the hash has matched: the upsert with \<open>verified: true\<close>,
  the read of the profile, the Session Record, the refresh of the dependent data and the
  removal of the Pending Verification and of its trace. An error of the upsert is thrown
  on as it is.
\<close>

definition verifyOtpAccept :: "PendingOTP \<Rightarrow> env \<Rightarrow> world \<Rightarrow> (error + unit) \<times> world" where
  "verifyOtpAccept p e w =
     (case ensureUserProfileExists (userId p)
             (Some [''phoneNumber'' \<mapsto> FStr (phoneNumber p), ''verified'' \<mapsto> FBool True])
             e (profiles w) of
        Inl err \<Rightarrow> (Inl (BackendError (fb_message err)), w)
      | Inr store \<Rightarrow>
          let w1 = w\<lparr>profiles := store\<rparr>;
              w2 = (case getUserProfileData (userId p) e store of
                      None \<Rightarrow> w1
                    | Some profileData \<Rightarrow>
                        let profile = [''id'' \<mapsto> FStr (userId p)] ++ profileData in
                        w1\<lparr>user := Some profile,
                           localStorage := (localStorage w1)(USER_AUTH_STORAGE_KEY \<mapsto> SProfile profile)\<rparr>);
              w3 = loadUserData (userId p) e w2
          in (Inr (), w3\<lparr>pendingOtp := None,
                           localStorage := (localStorage w3)(USER_OTP_STORAGE_KEY := None)\<rparr>))"

definition verifyOtp :: "string \<Rightarrow> env \<Rightarrow> world \<Rightarrow> (error + unit) \<times> world" where
  "verifyOtp otp e w =
     (case pendingOtp w of
        None \<Rightarrow> (Inl NoPendingError, w)
      | Some p \<Rightarrow>
          if now e > expiresAt p then (Inl ExpiredError, w\<lparr>pendingOtp := None\<rparr>)
          else if attempts p \<ge> 4 then (Inl TooManyAttemptsError, w\<lparr>pendingOtp := None\<rparr>)
          else if \<not> isOtpFormat otp then (Inl FormatError, w)
          else if hashOtp (digest e) (trim otp) \<noteq> otpHash p then
            (Inl IncorrectCodeError, w\<lparr>pendingOtp := Some (p\<lparr>attempts := attempts p + 1\<rparr>)\<rparr>)
          else verifyOtpAccept p e w)"

text \<open>
  The part of \<open>login\<close> from the backend authentication on, for the email the first part
  has settled on.
\<close>

definition loginAuthenticate :: "fval option \<Rightarrow> string \<Rightarrow> env \<Rightarrow> world \<Rightarrow> (error + unit) \<times> world" where
  "loginAuthenticate email password e w =
     (let w1 = w\<lparr>authCalls := authCalls w @ [SignIn email password]\<rparr> in
      case signInWithEmailAndPassword e email password of
        Inl err \<Rightarrow>
          (Inl (if fb_code err = ''auth/user-not-found'' \<or> fb_code err = ''auth/wrong-password''
                then InvalidCredentialsError
                else wrapMessage ''Login failed. Please try again.'' err), w1)
      | Inr ident \<Rightarrow>
          (case getUserProfileData ident e (profiles w1) of
             None \<Rightarrow> (Inr (), w1)
           | Some profileData \<Rightarrow>
               if truthy (profileData ''verified'') then
                 let profile = [''id'' \<mapsto> FStr ident] ++ profileData in
                 (Inr (), loadUserData ident e
                            (w1\<lparr>user := Some profile,
                                localStorage := (localStorage w1)(USER_AUTH_STORAGE_KEY \<mapsto> SProfile profile)\<rparr>))
               else (Inr (), w1)))"

definition login :: "string \<Rightarrow> string \<Rightarrow> env \<Rightarrow> world \<Rightarrow> (error + unit) \<times> world" where
  "login emailOrPhone password e w =
     (if \<not> isValidEmail emailOrPhone then
        if isValidPhone emailOrPhone then
          (case findUserByPhoneNumber (trim emailOrPhone) e (profiles w) of
             None \<Rightarrow> (Inl NotFoundError, w)
           | Some (ident, email) \<Rightarrow> loginAuthenticate email password e w)
        else (Inl InvalidInputError, w)
      else loginAuthenticate (Some (FStr (trim emailOrPhone))) password e w)"

definition logout :: "world \<Rightarrow> world" where
  "logout w =
     w\<lparr>user := None, orders := [], inquiries := [], pendingOtp := None,
       localStorage := (localStorage w)(USER_AUTH_STORAGE_KEY := None, USER_OTP_STORAGE_KEY := None),
       authCalls := authCalls w @ [SignOut]\<rparr>"

section \<open>Admin Auth Flow\<close>

text \<open>
  \<open>OwnerAuthProvider\<close> in a browser (the branches for a missing \<open>window\<close> are left out).
\<close>

definition OWNER_AUTH_STORAGE_KEY :: string where
  "OWNER_AUTH_STORAGE_KEY = ''owner-dashboard-authenticated''"

definition OWNER_UID_KEY :: string where
  "OWNER_UID_KEY = ''owner-uid''"

definition ADMIN_UID :: string where
  "ADMIN_UID = ''IlrRPiSdkJdtwHpnmTk1E0Q2X3f1''"

text \<open>\<open>data.role === "admin" || data.isAdmin === true\<close>.\<close>

definition isAdminDoc :: "doc \<Rightarrow> bool" where
  "isAdminDoc d = (d ''role'' = Some (FStr ''admin'') \<or> d ''isAdmin'' = Some (FBool True))"

text \<open>
  The initial state of \<open>OwnerAuthProvider\<close> in a browser: both values are read from
  \<open>localStorage\<close>.
\<close>

definition ownerMount :: "world \<Rightarrow> world" where
  "ownerMount w =
     w\<lparr>ownerAuthenticated := (localStorage w OWNER_AUTH_STORAGE_KEY = Some (SText ''true'')),
       ownerUserId := (case localStorage w OWNER_UID_KEY of Some (SText u) \<Rightarrow> Some u | _ \<Rightarrow> None),
       ownerInitialized := False\<rparr>"

text \<open>
  \<open>handleStorage\<close>: the listener for the \<open>storage\<close> event, which the browser raises when
  another document of the same origin has changed \<open>localStorage\<close>; \<open>newValue\<close> is \<open>null\<close>
  when the key was removed.
\<close>

definition handleStorage :: "string \<Rightarrow> string option \<Rightarrow> world \<Rightarrow> world" where
  "handleStorage key newValue w =
     (let w1 = (if key = OWNER_AUTH_STORAGE_KEY
                then w\<lparr>ownerAuthenticated := (newValue = Some ''true'')\<rparr> else w)
      in if key = OWNER_UID_KEY then w1\<lparr>ownerUserId := newValue\<rparr> else w1)"

text \<open>Storing the bearer credential, when \<open>getIdToken\<close> answers a non-empty token.\<close>

definition cacheIdToken :: "env \<Rightarrow> (string \<rightharpoonup> stored) \<Rightarrow> (string \<rightharpoonup> stored)" where
  "cacheIdToken e ls =
     (case getIdToken e of
        None \<Rightarrow> ls
      | Some t \<Rightarrow> if t \<noteq> [] then ls(''firebase_id_token'' \<mapsto> SText t) else ls)"

text \<open>
  The bootstrap listener on the backend auth-state stream; \<open>firebaseUser\<close> is the notified
  Account Identifier, or \<open>None\<close> when nobody is signed in.
\<close>

definition ownerAuthStateChanged :: "string option \<Rightarrow> env \<Rightarrow> world \<Rightarrow> world" where
  "ownerAuthStateChanged firebaseUser e w =
     (case firebaseUser of
        None \<Rightarrow> w\<lparr>ownerInitialized := True\<rparr>
      | Some ident \<Rightarrow>
          if localStorage w OWNER_AUTH_STORAGE_KEY = Some (SText ''true'') \<and> ident = ADMIN_UID then
            if getDocFails e then w\<lparr>ownerInitialized := True\<rparr>
            else (case map_of (profiles w) ADMIN_UID of
                    None \<Rightarrow> w\<lparr>ownerInitialized := True\<rparr>
                  | Some d \<Rightarrow>
                      if isAdminDoc d then
                        w\<lparr>ownerUserId := Some ADMIN_UID,
                          localStorage := (cacheIdToken e (localStorage w))(OWNER_UID_KEY \<mapsto> SText ADMIN_UID),
                          ownerAuthenticated := True,
                          ownerInitialized := True\<rparr>
                      else w\<lparr>ownerInitialized := True\<rparr>)
          else w\<lparr>ownerInitialized := True\<rparr>)"

text \<open>
  The admin \<open>login\<close> answers a boolean and shows a notice; the outcome keeps both:
  \<^item> \<open>AdminLoginOk\<close>: \<open>true\<close>, "Admin login successful";
  \<^item> \<open>NotAuthorizedError\<close>: \<open>false\<close>, "Only the admin account can access the admin dashboard.";
  \<^item> \<open>AdminInvalidCredentials\<close>: \<open>false\<close>, "Invalid email or password.";
  \<^item> \<open>AdminLoginFailed\<close>: \<open>false\<close>, "Admin login failed. Please try again.".
\<close>

datatype owner_outcome =
    AdminLoginOk
  | NotAuthorizedError
  | AdminInvalidCredentials
  | AdminLoginFailed

definition returned :: "owner_outcome \<Rightarrow> bool" where
  "returned r = (r = AdminLoginOk)"

text \<open>The document the admin \<open>login\<close> merges into the admin's Profile Record.\<close>

definition adminLoginData :: "string \<Rightarrow> doc option \<Rightarrow> int \<Rightarrow> doc" where
  "adminLoginData email adminSnap ts =
     (if (case adminSnap of None \<Rightarrow> True | Some d \<Rightarrow> \<not> isAdminDoc d) then
        [''uid'' \<mapsto> FStr ADMIN_UID, ''email'' \<mapsto> FStr email, ''role'' \<mapsto> FStr ''admin'',
         ''isAdmin'' \<mapsto> FBool True, ''createdAt'' \<mapsto> FTime ts, ''updatedAt'' \<mapsto> FTime ts]
      else
        [''uid'' \<mapsto> FStr ADMIN_UID, ''lastLoginAt'' \<mapsto> FTime ts, ''updatedAt'' \<mapsto> FTime ts])"

definition ownerLogin :: "string \<Rightarrow> string \<Rightarrow> env \<Rightarrow> world \<Rightarrow> owner_outcome \<times> world" where
  "ownerLogin email password e w =
     (let w1 = w\<lparr>authCalls := authCalls w @ [SignIn (Some (FStr (trim email))) (trim password)]\<rparr> in
      case signInWithEmailAndPassword e (Some (FStr (trim email))) (trim password) of
        Inl err \<Rightarrow>
          (if fb_code err = ''auth/user-not-found'' \<or> fb_code err = ''auth/wrong-password''
           then AdminInvalidCredentials else AdminLoginFailed, w1)
      | Inr ident \<Rightarrow>
          if ident \<noteq> ADMIN_UID then
            (if signOutFails e then AdminLoginFailed else NotAuthorizedError,
             w1\<lparr>authCalls := authCalls w1 @ [SignOut]\<rparr>)
          else if getDocFails e then (AdminLoginFailed, w1)
          else (case setDocError e of
                  Some err \<Rightarrow> (AdminLoginFailed, w1)
                | None \<Rightarrow>
                    (AdminLoginOk,
                     w1\<lparr>profiles := setDocMerge ADMIN_UID
                            (adminLoginData (trim email) (map_of (profiles w1) ADMIN_UID) (serverTimestamp e))
                            (profiles w1),
                        ownerUserId := Some ADMIN_UID,
                        ownerAuthenticated := True,
                        localStorage := (cacheIdToken e (localStorage w1))
                            (OWNER_AUTH_STORAGE_KEY \<mapsto> SText ''true'',
                             OWNER_UID_KEY \<mapsto> SText ADMIN_UID)\<rparr>)))"

definition ownerLogout :: "world \<Rightarrow> world" where
  "ownerLogout w =
     w\<lparr>ownerAuthenticated := False, ownerUserId := None,
       localStorage := (localStorage w)
          (OWNER_AUTH_STORAGE_KEY := None, OWNER_UID_KEY := None, ''firebase_id_token'' := None),
       authCalls := authCalls w @ [SignOut]\<rparr>"

text \<open>The derived \<open>isAdmin\<close>: \<open>isAuthenticated && userId === ADMIN_UID\<close>.\<close>

definition isAdmin :: "world \<Rightarrow> bool" where
  "isAdmin w = (ownerAuthenticated w \<and> ownerUserId w = Some ADMIN_UID)"

text \<open>
  The transitions of the admin state: a \<open>storage\<close> event (the change another document made
  to \<open>localStorage\<close>, then the listener), an auth-state notification, \<open>login\<close> and \<open>logout\<close>.
\<close>

datatype owner_event =
    EvStorage string "string option"
  | EvAuthState "string option" env
  | EvLogin string string env
  | EvLogout

fun ownerStep :: "owner_event \<Rightarrow> world \<Rightarrow> world" where
  "ownerStep (EvStorage key newValue) w =
     handleStorage key newValue (w\<lparr>localStorage := (localStorage w)(key := map_option SText newValue)\<rparr>)"
| "ownerStep (EvAuthState firebaseUser e) w = ownerAuthStateChanged firebaseUser e w"
| "ownerStep (EvLogin email password e) w = snd (ownerLogin email password e w)"
| "ownerStep EvLogout w = ownerLogout w"

section \<open>Consecutive verification calls\<close>

text \<open>
  \<open>verifyOtpSeq\<close> makes the calls of a list one after the other, each on the state the
  previous one left, and collects the outcomes. \<open>wrongCall p\<close> holds of a call that
  submits six digits whose hash is not the one stored in \<open>p\<close>, at a time not past the
  expiry of \<open>p\<close>.
\<close>

fun verifyOtpSeq :: "(string \<times> env) list \<Rightarrow> world \<Rightarrow> (error + unit) list \<times> world" where
  "verifyOtpSeq [] w = ([], w)"
| "verifyOtpSeq ((otp, e) # cs) w =
     (case verifyOtp otp e w of
        (r, w1) \<Rightarrow> (case verifyOtpSeq cs w1 of (rs, w2) \<Rightarrow> (r # rs, w2)))"

definition wrongCall :: "PendingOTP \<Rightarrow> string \<times> env \<Rightarrow> bool" where
  "wrongCall p c = (isSixDigits (fst c) \<and> hashOtp (digest (snd c)) (fst c) \<noteq> otpHash p
                    \<and> now (snd c) \<le> expiresAt p)"

section \<open>Scenarios\<close>

text \<open>
  Concrete collaborators and states for the scenarios below. The stand-in digest is the
  identity on byte strings, which is free of collisions. In \<open>env0\<close> the backend issues the
  identifier \<open>u1\<close> and every store call succeeds; the clock reads 1000.
\<close>

definition env0 :: env where
  "env0 = \<lparr>now = 1000, serverTimestamp = 1000,
     createUserWithEmailAndPassword = (\<lambda>em pw. Inr ''u1''),
     signInWithEmailAndPassword = (\<lambda>em pw. Inr ''u1''),
     setDocError = None, getDocFails = False, getDocsFails = False,
     getUserOrders = (\<lambda>_. []), getUserInquiries = (\<lambda>_. []),
     getIdToken = Some ''tok'', signOutFails = False, digest = (\<lambda>bs. bs)\<rparr>"

definition world0 :: world where
  "world0 = \<lparr>profiles = [], localStorage = Map.empty, authCalls = [], user = None,
     pendingOtp = None, isSignup = False, orders = [], inquiries = [],
     ownerAuthenticated = False, ownerUserId = None, ownerInitialized = False\<rparr>"

definition dataA :: SignupData where
  "dataA = \<lparr>sd_fullName = ''A'', sd_email = ''a@b.com'', sd_password = ''secret1'',
     sd_phoneNumber = ''9876543210''\<rparr>"

text \<open>The state after \<open>signup dataA\<close>, the Pending Verification it issues, and a state
  holding only that Pending Verification.\<close>

definition worldS :: world where
  "worldS = snd (signup dataA env0 world0)"

definition pend0 :: PendingOTP where
  "pend0 = \<lparr>otpHash = ''313233343536'', expiresAt = 601000, attempts = 0,
     userId = ''u1'', phoneNumber = ''9876543210''\<rparr>"

definition worldP :: world where
  "worldP = world0\<lparr>pendingOtp := Some pend0\<rparr>"

text \<open>The email is registered already and the backend rejects the password.\<close>

definition envTaken :: env where
  "envTaken = env0\<lparr>
     createUserWithEmailAndPassword :=
       (\<lambda>em pw. Inl (FbError ''auth/email-already-in-use'' ''Firebase: Error (auth/email-already-in-use).'')),
     signInWithEmailAndPassword :=
       (\<lambda>em pw. Inl (FbError ''auth/wrong-password'' ''Firebase: Error (auth/wrong-password).''))\<rparr>"

text \<open>The clock exactly at the expiry instant, one millisecond after it, and some time
  after the signup.\<close>

definition envAtExpiry :: env where
  "envAtExpiry = env0\<lparr>now := 601000\<rparr>"

definition envLate :: env where
  "envLate = env0\<lparr>now := 601001, serverTimestamp := 601001\<rparr>"

definition envVerifyLater :: env where
  "envVerifyLater = env0\<lparr>now := 5000, serverTimestamp := 5000\<rparr>"

text \<open>The read of the store throws.\<close>

definition envNoRead :: env where
  "envNoRead = env0\<lparr>getDocFails := True\<rparr>"

definition fourWrong :: "(string \<times> env) list" where
  "fourWrong = [(''000000'', env0), (''000000'', env0), (''000000'', env0), (''000000'', env0)]"

text \<open>
  A directory with one verified record; in \<open>worldEdited\<close> its email has been saved empty,
  as the profile page allows. \<open>envReject\<close> is a backend that rejects such an email.
\<close>

definition worldOne :: world where
  "worldOne = world0\<lparr>profiles :=
     [(''u1'', [''uid'' \<mapsto> FStr ''u1'', ''phoneNumber'' \<mapsto> FStr ''9876543210'',
               ''email'' \<mapsto> FStr ''a@b.com'', ''verified'' \<mapsto> FBool True])]\<rparr>"

definition worldEdited :: world where
  "worldEdited = world0\<lparr>profiles :=
     [(''u1'', [''uid'' \<mapsto> FStr ''u1'', ''phoneNumber'' \<mapsto> FStr ''9876543210'',
               ''email'' \<mapsto> FStr '''', ''verified'' \<mapsto> FBool True])]\<rparr>"

definition envReject :: env where
  "envReject = env0\<lparr>signInWithEmailAndPassword :=
     (\<lambda>em pw. Inl (FbError ''auth/invalid-email'' ''Firebase: Error (auth/invalid-email).''))\<rparr>"

text \<open>The backend resolves the credentials to the privileged identifier; the admin state
  after a successful admin login; that login as an event.\<close>

definition envAdmin :: env where
  "envAdmin = env0\<lparr>signInWithEmailAndPassword := (\<lambda>em pw. Inr ADMIN_UID)\<rparr>"

definition worldAdmin :: world where
  "worldAdmin = snd (ownerLogin ''admin@wire.com'' ''adminpw'' envAdmin world0)"

definition evAdminLogin :: owner_event where
  "evAdminLogin = EvLogin ''admin@wire.com'' ''adminpw'' envAdmin"

section \<open>Facts about the scenarios and the input patterns\<close>

lemma env0_fields:
  "now env0 = 1000" "serverTimestamp env0 = 1000" "setDocError env0 = None"
  "\<not> getDocFails env0" "\<not> getDocsFails env0" "\<not> signOutFails env0"
  "digest env0 = (\<lambda>bs. bs)"
  "createUserWithEmailAndPassword env0 em pw = Inr ''u1''"
  "signInWithEmailAndPassword env0 v pw = Inr ''u1''"
  by (simp_all add: env0_def)

lemma dataA_fields:
  "sd_fullName dataA = ''A''" "sd_email dataA = ''a@b.com''"
  "sd_password dataA = ''secret1''" "sd_phoneNumber dataA = ''9876543210''"
  by (simp_all add: dataA_def)

lemma isDigit_not_isSpace: "isDigit c \<Longrightarrow> \<not> isSpace c"
  by (auto simp: isDigit_def isSpace_def)

lemma dropWhile_no_match: "\<forall>x\<in>set xs. \<not> P x \<Longrightarrow> dropWhile P xs = xs"
  by (cases xs) auto

lemma trim_digits: "list_all isDigit t \<Longrightarrow> trim t = t"
  by (simp add: trim_def dropWhile_no_match list_all_iff isDigit_not_isSpace)

lemma isSixDigits_isOtpFormat: "isSixDigits otp \<Longrightarrow> isOtpFormat otp"
  by (simp add: isOtpFormat_def isSixDigits_def trim_digits)

lemma hashOtp_id_zeros: "hashOtp (\<lambda>bs. bs) ''000000'' = ''303030303030''"
  by (simp add: hashOtp_def bufferToHex_def encode_def hexDigit_def)

lemma hashOtp_id_test: "hashOtp (\<lambda>bs. bs) ''123456'' = ''313233343536''"
  by (simp add: hashOtp_def bufferToHex_def encode_def hexDigit_def)

lemma isSixDigits_zeros: "isSixDigits ''000000''"
  by (simp add: isSixDigits_def isDigit_def)

lemma isSixDigits_test: "isSixDigits ''123456''"
  by (simp add: isSixDigits_def isDigit_def)

lemma isOtpFormat_TEST_OTP: "isOtpFormat TEST_OTP"
  by (simp add: TEST_OTP_def isSixDigits_test isSixDigits_isOtpFormat)

lemma trim_TEST_OTP: "trim TEST_OTP = TEST_OTP"
  using isSixDigits_test by (simp add: TEST_OTP_def isSixDigits_def trim_digits)

lemma valid_email_a: "isValidEmail ''a@b.com''"
  by (simp add: isValidEmail_def isValidDomain_def trim_def isSpace_def isLocalChar_def
        isAlpha_def isDigit_def isLabelChar_def)

lemma valid_phone_a: "isValidPhone ''9876543210''"
  by (simp add: isValidPhone_def trim_def isSpace_def isDigit_def)

text \<open>Ten digits with a leading digit from 6 to 9 are a valid phone number.\<close>

lemma isDigit_not_hyphen: "isDigit c \<Longrightarrow> c \<noteq> CHR ''-''"
  by (auto simp: isDigit_def)

lemma ten_digits_isValidPhone:
  assumes "length v = 10" and "list_all isDigit v" and "hd v \<in> set ''6789''"
  shows "isValidPhone v"
proof -
  have t: "trim v = v"
    using assms(2) by (rule trim_digits)
  have "\<forall>c\<in>set v. \<not> (isSpace c \<or> c = CHR ''-'')"
    using assms(2) isDigit_not_isSpace isDigit_not_hyphen unfolding list_all_iff by blast
  then have f: "filter (\<lambda>c. \<not> (isSpace c \<or> c = CHR ''-'')) v = v"
    unfolding filter_id_conv .
  obtain c cs where v: "v = c # cs"
    using assms(1) by (cases v) auto
  have l: "length cs = 9" and d: "list_all isDigit cs" and h: "c \<in> set ''6789''"
    using assms unfolding v by simp_all
  have "isValidPhone (c # cs)"
    unfolding isValidPhone_def t [unfolded v] f [unfolded v] using l d h by simp
  then show ?thesis
    unfolding v .
qed

lemma phone_not_email: "\<not> isValidEmail ''9876543210''"
  by (simp add: isValidEmail_def trim_def isSpace_def)

lemma trim_phone: "trim ''9876543210'' = ''9876543210''"
  by (simp add: trim_def isSpace_def)

lemma trim_email_a: "trim ''a@b.com'' = ''a@b.com''"
  by (simp add: trim_def isSpace_def)

lemma empty_not_email: "\<not> isValidEmail ''''"
  by (simp add: isValidEmail_def trim_def)

lemma empty_not_phone: "\<not> isValidPhone ''''"
  by (simp add: isValidPhone_def trim_def)

lemma trim_padded: "trim '' 123456'' = ''123456''"
  by (simp add: trim_def isSpace_def)

lemma trim_short: "trim ''12345'' = ''12345''"
  by (simp add: trim_def isSpace_def)

lemma u1_not_admin: "''u1'' \<noteq> ADMIN_UID"
  by (simp add: ADMIN_UID_def)

section \<open>Facts about the Identity Directory\<close>

text \<open>
  A merge-write leaves the other records alone, and in the record it writes it leaves
  every field alone that is not among the written ones.
\<close>

lemma map_of_setDocMerge_same:
  "map_of (setDocMerge ident data store) ident =
     Some ((case map_of store ident of None \<Rightarrow> Map.empty | Some old \<Rightarrow> old) ++ data)"
  by (simp add: setDocMerge_def update_conv')

lemma map_of_setDocMerge_other:
  "k \<noteq> ident \<Longrightarrow> map_of (setDocMerge ident data store) k = map_of store k"
  by (simp add: setDocMerge_def update_conv')

lemma setDocMerge_keeps_unwritten_field:
  assumes "map_of store ident = Some old" and "data f = None"
  shows "\<exists>d. map_of (setDocMerge ident data store) ident = Some d \<and> d f = old f"
  using assms by (simp add: map_of_setDocMerge_same map_add_def)

lemma setDocMerge_written_field:
  assumes "data f = Some v"
  shows "\<exists>d. map_of (setDocMerge ident data store) ident = Some d \<and> d f = Some v"
  using assms by (simp add: map_of_setDocMerge_same map_add_find_right)

text \<open>
  \<open>ensureUserProfileExists\<close> always writes \<open>uid\<close>, \<open>verified\<close>, \<open>updatedAt\<close> and
  \<open>createdAt\<close>, whatever the caller passes.
\<close>

lemma ensureUserProfileData_verified:
  "ensureUserProfileData ident pd ts ''verified'' = Some (verifiedOrFalse pd)"
  by (simp add: ensureUserProfileData_def)

lemma ensureUserProfileData_createdAt:
  "ensureUserProfileData ident pd ts ''createdAt'' = Some (FTime ts)"
  by (simp add: ensureUserProfileData_def)

lemma ensureUserProfileExists_sets_createdAt:
  assumes "ensureUserProfileExists ident pd e store = Inr store'"
  shows "\<exists>d. map_of store' ident = Some d \<and> d ''createdAt'' = Some (FTime (serverTimestamp e))"
proof -
  from assms have "store' = setDocMerge ident (ensureUserProfileData ident pd (serverTimestamp e)) store"
    by (simp add: ensureUserProfileExists_def split: option.splits)
  then show ?thesis
    by (simp add: setDocMerge_written_field ensureUserProfileData_createdAt)
qed

section \<open>Facts about signup and verification\<close>

lemma signupIssue_ok:
  "setDocError e = None \<Longrightarrow>
   signupIssue data e ident w =
     (Inr (),
      w\<lparr>profiles := setDocMerge ident
           (ensureUserProfileData ident
              (Some [''fullName'' \<mapsto> FStr (sd_fullName data),
                     ''email'' \<mapsto> FStr (sd_email data),
                     ''phoneNumber'' \<mapsto> FStr (sd_phoneNumber data),
                     ''verified'' \<mapsto> FBool False])
              (serverTimestamp e))
           (profiles w),
        pendingOtp := Some \<lparr>otpHash = hashOtp (digest e) TEST_OTP,
                            expiresAt = now e + 10 * 60 * 1000,
                            attempts = 0,
                            userId = ident,
                            phoneNumber = sd_phoneNumber data\<rparr>,
        localStorage := (localStorage w)
           (USER_OTP_STORAGE_KEY \<mapsto> SOtpTrace ident (sd_phoneNumber data)),
        isSignup := False\<rparr>)"
  by (simp add: signupIssue_def ensureUserProfileExists_def)

lemma signupIssue_pending:
  "fst (signupIssue data e ident w) = Inr () \<Longrightarrow>
   pendingOtp (snd (signupIssue data e ident w)) =
     Some \<lparr>otpHash = hashOtp (digest e) TEST_OTP, expiresAt = now e + 10 * 60 * 1000,
           attempts = 0, userId = ident, phoneNumber = sd_phoneNumber data\<rparr>"
  by (simp add: signupIssue_def split: sum.splits)

text \<open>A signup that succeeds leaves a Pending Verification that expires 10 minutes after
  the clock reading of the signup, with no attempt recorded.\<close>

lemma signup_pending:
  assumes "fst (signup data e w) = Inr ()"
  shows "\<exists>ident. pendingOtp (snd (signup data e w)) =
     Some \<lparr>otpHash = hashOtp (digest e) TEST_OTP, expiresAt = now e + 10 * 60 * 1000,
           attempts = 0, userId = ident, phoneNumber = sd_phoneNumber data\<rparr>"
  using assms
  by (auto simp: signup_def Let_def signupIssue_pending split: if_splits sum.splits)

lemma signup_dataA:
  "signup dataA env0 world0 =
     signupIssue dataA env0 ''u1'' (world0\<lparr>authCalls := [CreateUser ''a@b.com'' ''secret1'']\<rparr>)"
  by (simp add: signup_def dataA_def valid_email_a valid_phone_a env0_def world0_def Let_def)

lemma signup_dataA_ok: "fst (signup dataA env0 world0) = Inr ()"
  by (simp add: signup_dataA signupIssue_ok env0_fields)

lemma worldS_pending: "pendingOtp worldS = Some pend0"
  by (simp add: worldS_def signup_dataA signupIssue_ok env0_fields dataA_fields pend0_def
        TEST_OTP_def hashOtp_id_test)

lemma worldP_pending: "pendingOtp worldP = Some pend0"
  by (simp add: worldP_def)

section \<open>Verification with a wrong code\<close>

text \<open>
  C8. For an active, unexpired Pending Verification with fewer than 4 recorded attempts and
  a submitted code of exactly 6 digits whose hash differs from the stored one, \<open>verifyOtp\<close>
  fails with \<open>IncorrectCodeError\<close>; the state it leaves differs from the one before only in
  the attempt counter, which is one higher (hash, expiry, target identifier and phone number
  are those of before), so the user and the derived \<open>isAuthenticated\<close> are unchanged and an
  unauthenticated state stays unauthenticated.
\<close>

theorem verifyOtp_wrong_code:
  assumes "pendingOtp w = Some p"
    and "now e \<le> expiresAt p"
    and "attempts p < 4"
    and "isSixDigits otp"
    and "hashOtp (digest e) otp \<noteq> otpHash p"
  shows "fst (verifyOtp otp e w) = Inl IncorrectCodeError
       \<and> snd (verifyOtp otp e w) = w\<lparr>pendingOtp := Some (p\<lparr>attempts := attempts p + 1\<rparr>)\<rparr>
       \<and> pendingOtp (snd (verifyOtp otp e w)) =
           Some \<lparr>otpHash = otpHash p, expiresAt = expiresAt p, attempts = attempts p + 1,
                 userId = userId p, phoneNumber = phoneNumber p\<rparr>
       \<and> user (snd (verifyOtp otp e w)) = user w
       \<and> isAuthenticated (snd (verifyOtp otp e w)) = isAuthenticated w"
proof -
  have "trim otp = otp"
    using assms(4) by (simp add: isSixDigits_def trim_digits)
  with assms have "verifyOtp otp e w =
      (Inl IncorrectCodeError, w\<lparr>pendingOtp := Some (p\<lparr>attempts := attempts p + 1\<rparr>)\<rparr>)"
    by (simp add: verifyOtp_def isSixDigits_isOtpFormat)
  then show ?thesis
    by (simp add: isAuthenticated_def)
qed

text \<open>
  The scenario of the specification: \<open>verifyOtp("000000")\<close> against a fresh Pending
  Verification throws \<open>IncorrectCodeError\<close>, the counter becomes 1 and \<open>isAuthenticated\<close>
  remains false.
\<close>

theorem verifyOtp_wrong_code_witness:
  "pendingOtp worldP = Some pend0 \<and> now env0 \<le> expiresAt pend0 \<and> attempts pend0 < 4
   \<and> isSixDigits ''000000'' \<and> hashOtp (digest env0) ''000000'' \<noteq> otpHash pend0
   \<and> fst (verifyOtp ''000000'' env0 worldP) = Inl IncorrectCodeError
   \<and> pendingOtp (snd (verifyOtp ''000000'' env0 worldP)) = Some (pend0\<lparr>attempts := 1\<rparr>)
   \<and> \<not> isAuthenticated worldP
   \<and> \<not> isAuthenticated (snd (verifyOtp ''000000'' env0 worldP))"
proof -
  have h2: "now env0 \<le> expiresAt pend0"
    by (simp add: env0_fields pend0_def)
  have h3: "attempts pend0 < 4"
    by (simp add: pend0_def)
  have h5: "hashOtp (digest env0) ''000000'' \<noteq> otpHash pend0"
    by (simp add: env0_fields pend0_def hashOtp_id_zeros)
  have h6: "\<not> isAuthenticated worldP"
    by (simp add: isAuthenticated_def worldP_def world0_def)
  from verifyOtp_wrong_code [OF worldP_pending h2 h3 isSixDigits_zeros h5]
    worldP_pending h2 h3 h5 h6 isSixDigits_zeros
  show ?thesis
    by (simp add: pend0_def isAuthenticated_def)
qed

section \<open>The format check\<close>

text \<open>
  C9, as the code has it. For an active, unexpired Pending Verification with fewer than 4
  recorded attempts, \<open>verifyOtp\<close> fails with \<open>FormatError\<close> exactly when the submitted
  string, after \<open>trim\<close> has removed the white space around it, is not exactly 6 decimal
  digits; and when it fails so, the state is the one before: no attempt is consumed and
  the Pending Verification stays.
\<close>

theorem verifyOtp_format:
  assumes "pendingOtp w = Some p"
    and "now e \<le> expiresAt p"
    and "attempts p < 4"
  shows "(fst (verifyOtp otp e w) = Inl FormatError) = (\<not> isSixDigits (trim otp))
       \<and> (fst (verifyOtp otp e w) = Inl FormatError \<longrightarrow> snd (verifyOtp otp e w) = w)"
  using assms
  by (auto simp: verifyOtp_def isOtpFormat_def verifyOtpAccept_def Let_def
           split: sum.splits option.splits)

theorem verifyOtp_format_witness:
  "pendingOtp worldP = Some pend0 \<and> now env0 \<le> expiresAt pend0 \<and> attempts pend0 < 4
   \<and> \<not> isSixDigits (trim ''12345'')
   \<and> fst (verifyOtp ''12345'' env0 worldP) = Inl FormatError
   \<and> snd (verifyOtp ''12345'' env0 worldP) = worldP"
proof -
  have n: "now env0 \<le> expiresAt pend0" and a: "attempts pend0 < 4"
    by (simp_all add: env0_fields pend0_def)
  have f: "\<not> isSixDigits (trim ''12345'')"
    by (simp add: trim_short isSixDigits_def)
  from verifyOtp_format [OF worldP_pending n a, of "''12345''"] worldP_pending n a f
  show ?thesis
    by (intro conjI) simp_all
qed

text \<open>
  The claim as written fails for a code with white space around it: the string
  \<open>" 123456"\<close> is not exactly 6 decimal digits, and \<open>verifyOtp\<close> accepts it.
\<close>

theorem padded_code_counterexample:
  "pendingOtp worldP = Some pend0 \<and> now env0 \<le> expiresAt pend0 \<and> attempts pend0 < 4
   \<and> \<not> isSixDigits '' 123456''
   \<and> fst (verifyOtp '' 123456'' env0 worldP) = Inr ()"
proof -
  have v: "verifyOtp '' 123456'' env0 worldP = verifyOtpAccept pend0 env0 worldP"
    by (simp add: verifyOtp_def worldP_pending isOtpFormat_def trim_padded isSixDigits_test
          env0_fields hashOtp_id_test pend0_def)
  have "fst (verifyOtpAccept pend0 env0 worldP) = Inr ()"
    by (simp add: verifyOtpAccept_def ensureUserProfileExists_def env0_fields Let_def)
  then show ?thesis
    by (simp add: v worldP_pending env0_fields pend0_def isSixDigits_def)
qed

section \<open>Too many attempts\<close>

lemma wrongCall_attempts: "wrongCall (p\<lparr>attempts := n\<rparr>) = wrongCall p"
  by (simp add: wrongCall_def fun_eq_iff)

lemma verifyOtp_mismatch_eq:
  assumes "pendingOtp w = Some p" "attempts p < 4" "wrongCall p (otp, e)"
  shows "verifyOtp otp e w =
      (Inl IncorrectCodeError, w\<lparr>pendingOtp := Some (p\<lparr>attempts := attempts p + 1\<rparr>)\<rparr>)"
proof -
  have "trim otp = otp"
    using assms(3) by (simp add: wrongCall_def isSixDigits_def trim_digits)
  with assms show ?thesis
    by (simp add: verifyOtp_def wrongCall_def isSixDigits_isOtpFormat)
qed

text \<open>As long as the counter stays within 4, every wrong call only raises it by one.\<close>

lemma verifyOtpSeq_wrong:
  "pendingOtp w = Some p \<Longrightarrow> list_all (wrongCall p) cs \<Longrightarrow> attempts p + length cs \<le> 4 \<Longrightarrow>
   verifyOtpSeq cs w =
     (replicate (length cs) (Inl IncorrectCodeError),
      w\<lparr>pendingOtp := Some (p\<lparr>attempts := attempts p + length cs\<rparr>)\<rparr>)"
proof (induction cs arbitrary: w p)
  case Nil
  then show ?case by simp
next
  case (Cons c cs)
  obtain otp e where c: "c = (otp, e)" by (cases c)
  let ?p1 = "p\<lparr>attempts := attempts p + 1\<rparr>"
  let ?w1 = "w\<lparr>pendingOtp := Some ?p1\<rparr>"
  from Cons.prems c have step: "verifyOtp otp e w = (Inl IncorrectCodeError, ?w1)"
    by (intro verifyOtp_mismatch_eq) auto
  have wc: "list_all (wrongCall ?p1) cs"
    using Cons.prems(2) by (simp add: wrongCall_attempts)
  have "verifyOtpSeq cs ?w1 =
     (replicate (length cs) (Inl IncorrectCodeError),
      ?w1\<lparr>pendingOtp := Some (?p1\<lparr>attempts := attempts ?p1 + length cs\<rparr>)\<rparr>)"
    using Cons.prems(3) by (intro Cons.IH wc) auto
  with step c show ?case by simp
qed

lemma fourWrong_wrong: "list_all (wrongCall pend0) fourWrong"
  by (simp add: fourWrong_def wrongCall_def isSixDigits_zeros env0_fields pend0_def hashOtp_id_zeros)

text \<open>
  C3, as the code has it. On a fresh Pending Verification, 4 consecutive \<open>verifyOtp\<close>
  calls with six digits of a wrong hash, none past the expiry, each fail with
  \<open>IncorrectCodeError\<close> and leave the Pending Verification in place with its counter at 4.
  The 5th call, whatever its code, fails with \<open>TooManyAttemptsError\<close> and discards the
  Pending Verification; only the 6th call fails with the "no pending verification"
  condition.
\<close>

theorem four_wrong_codes:
  assumes "pendingOtp w = Some p"
    and "attempts p = 0"
    and "length cs = 4"
    and "list_all (wrongCall p) cs"
    and "now e5 \<le> expiresAt p"
  shows "fst (verifyOtpSeq cs w) = replicate 4 (Inl IncorrectCodeError)
       \<and> pendingOtp (snd (verifyOtpSeq cs w)) = Some (p\<lparr>attempts := 4\<rparr>)
       \<and> fst (verifyOtp otp5 e5 (snd (verifyOtpSeq cs w))) = Inl TooManyAttemptsError
       \<and> pendingOtp (snd (verifyOtp otp5 e5 (snd (verifyOtpSeq cs w)))) = None
       \<and> fst (verifyOtp otp6 e6 (snd (verifyOtp otp5 e5 (snd (verifyOtpSeq cs w))))) = Inl NoPendingError"
proof -
  have seq: "verifyOtpSeq cs w =
     (replicate 4 (Inl IncorrectCodeError), w\<lparr>pendingOtp := Some (p\<lparr>attempts := 4\<rparr>)\<rparr>)"
    using verifyOtpSeq_wrong [OF assms(1) assms(4)] assms(2,3) by simp
  have fifth: "verifyOtp otp5 e5 (w\<lparr>pendingOtp := Some (p\<lparr>attempts := 4\<rparr>)\<rparr>) =
     (Inl TooManyAttemptsError, w\<lparr>pendingOtp := None\<rparr>)"
    using assms(5) by (simp add: verifyOtp_def)
  have sixth: "fst (verifyOtp otp6 e6 (w\<lparr>pendingOtp := None\<rparr>)) = Inl NoPendingError"
    by (simp add: verifyOtp_def)
  show ?thesis
    by (simp add: seq fifth sixth)
qed

theorem four_wrong_codes_witness:
  "pendingOtp worldP = Some pend0 \<and> attempts pend0 = 0
   \<and> length fourWrong = 4 \<and> list_all (wrongCall pend0) fourWrong \<and> now env0 \<le> expiresAt pend0
   \<and> fst (verifyOtpSeq fourWrong worldP) =
        [Inl IncorrectCodeError, Inl IncorrectCodeError, Inl IncorrectCodeError, Inl IncorrectCodeError]
   \<and> fst (verifyOtp TEST_OTP env0 (snd (verifyOtpSeq fourWrong worldP))) = Inl TooManyAttemptsError
   \<and> fst (verifyOtp TEST_OTP env0 (snd (verifyOtp TEST_OTP env0 (snd (verifyOtpSeq fourWrong worldP)))))
        = Inl NoPendingError"
proof -
  have a: "attempts pend0 = 0" and l: "length fourWrong = 4"
    by (simp_all add: pend0_def fourWrong_def)
  have n: "now env0 \<le> expiresAt pend0"
    by (simp add: env0_fields pend0_def)
  from four_wrong_codes [OF worldP_pending a l fourWrong_wrong n, of TEST_OTP TEST_OTP env0]
    worldP_pending a l n fourWrong_wrong
  show ?thesis
    by (intro conjI) (simp_all add: eval_nat_numeral)
qed

text \<open>
  The claim as written fails at the fresh Pending Verification \<open>pend0\<close>: after 4 wrong
  calls it is still there, and the 5th call fails with \<open>TooManyAttemptsError\<close>.
\<close>

theorem four_wrong_codes_counterexample:
  "pendingOtp worldP = Some pend0 \<and> attempts pend0 = 0
   \<and> length fourWrong = 4 \<and> list_all (wrongCall pend0) fourWrong
   \<and> pendingOtp (snd (verifyOtpSeq fourWrong worldP)) = Some (pend0\<lparr>attempts := 4\<rparr>)
   \<and> fst (verifyOtp ''000000'' env0 (snd (verifyOtpSeq fourWrong worldP))) = Inl TooManyAttemptsError"
proof -
  have a: "attempts pend0 = 0" and l: "length fourWrong = 4"
    by (simp_all add: pend0_def fourWrong_def)
  have seq: "verifyOtpSeq fourWrong worldP =
     (replicate (length fourWrong) (Inl IncorrectCodeError),
      worldP\<lparr>pendingOtp := Some (pend0\<lparr>attempts := attempts pend0 + length fourWrong\<rparr>)\<rparr>)"
    by (rule verifyOtpSeq_wrong [OF worldP_pending fourWrong_wrong]) (simp add: a l)
  have "fst (verifyOtp ''000000'' env0 (worldP\<lparr>pendingOtp := Some (pend0\<lparr>attempts := 4\<rparr>)\<rparr>))
        = Inl TooManyAttemptsError"
    by (simp add: verifyOtp_def env0_fields pend0_def)
  with worldP_pending a l fourWrong_wrong show ?thesis
    by (simp add: seq)
qed

section \<open>Expiry\<close>

text \<open>
  C4, as the code has it. When a signup at clock reading \<open>T\<close> has issued a Pending
  Verification, a \<open>verifyOtp\<close> call on it at any clock reading strictly greater than
  \<open>T\<close> + 10 minutes fails with \<open>ExpiredError\<close>, whatever the submitted code, and the state
  it leaves is the one before without the Pending Verification.
\<close>

theorem verifyOtp_expired:
  assumes "fst (signup data e1 w) = Inr ()"
    and "now e2 > now e1 + 10 * 60 * 1000"
  shows "fst (verifyOtp otp e2 (snd (signup data e1 w))) = Inl ExpiredError
       \<and> snd (verifyOtp otp e2 (snd (signup data e1 w))) = (snd (signup data e1 w))\<lparr>pendingOtp := None\<rparr>
       \<and> pendingOtp (snd (verifyOtp otp e2 (snd (signup data e1 w)))) = None"
proof -
  from signup_pending [OF assms(1)] obtain ident where
    "pendingOtp (snd (signup data e1 w)) =
       Some \<lparr>otpHash = hashOtp (digest e1) TEST_OTP, expiresAt = now e1 + 10 * 60 * 1000,
             attempts = 0, userId = ident, phoneNumber = sd_phoneNumber data\<rparr>"
    by blast
  with assms(2) show ?thesis
    by (simp add: verifyOtp_def)
qed

theorem verifyOtp_expired_witness:
  "fst (signup dataA env0 world0) = Inr () \<and> now envLate > now env0 + 10 * 60 * 1000
   \<and> fst (verifyOtp TEST_OTP envLate (snd (signup dataA env0 world0))) = Inl ExpiredError
   \<and> pendingOtp (snd (verifyOtp TEST_OTP envLate (snd (signup dataA env0 world0)))) = None"
proof -
  have h2: "now envLate > now env0 + 10 * 60 * 1000"
    by (simp add: envLate_def env0_fields)
  from verifyOtp_expired [OF signup_dataA_ok h2] signup_dataA_ok h2 show ?thesis
    by (intro conjI) simp_all
qed

text \<open>
  The same holds of every state that holds a Pending Verification, whoever issued it.
\<close>

lemma verifyOtp_past_expiry:
  "pendingOtp w = Some p \<Longrightarrow> now e > expiresAt p \<Longrightarrow>
   verifyOtp otp e w = (Inl ExpiredError, w\<lparr>pendingOtp := None\<rparr>)"
  by (simp add: verifyOtp_def)

section \<open>Signup followed by verification\<close>

text \<open>
  What the accepting part of \<open>verifyOtp\<close> leaves when the upsert and the read succeed:
  the record read back has \<open>verified = true\<close>, and it is the user.
\<close>

lemma verifyOtpAccept_ok:
  assumes "setDocError e = None" and "\<not> getDocFails e"
  shows "\<exists>d. d ''verified'' = Some (FBool True)
       \<and> verifyOtpAccept p e w =
          (Inr (),
           w\<lparr>profiles := setDocMerge (userId p)
                 (ensureUserProfileData (userId p)
                    (Some [''phoneNumber'' \<mapsto> FStr (phoneNumber p), ''verified'' \<mapsto> FBool True])
                    (serverTimestamp e))
                 (profiles w),
             user := Some ([''id'' \<mapsto> FStr (userId p)] ++ d),
             localStorage := (localStorage w)
                 (USER_AUTH_STORAGE_KEY \<mapsto> SProfile ([''id'' \<mapsto> FStr (userId p)] ++ d),
                  USER_OTP_STORAGE_KEY := None),
             orders := getUserOrders e (userId p),
             inquiries := getUserInquiries e (userId p),
             pendingOtp := None\<rparr>)
       \<and> map_of (setDocMerge (userId p)
                 (ensureUserProfileData (userId p)
                    (Some [''phoneNumber'' \<mapsto> FStr (phoneNumber p), ''verified'' \<mapsto> FBool True])
                    (serverTimestamp e))
                 (profiles w)) (userId p) = Some d"
proof -
  let ?data = "ensureUserProfileData (userId p)
                 (Some [''phoneNumber'' \<mapsto> FStr (phoneNumber p), ''verified'' \<mapsto> FBool True])
                 (serverTimestamp e)"
  let ?d = "(case map_of (profiles w) (userId p) of None \<Rightarrow> Map.empty | Some old \<Rightarrow> old) ++ ?data"
  have v: "?d ''verified'' = Some (FBool True)"
    by (simp add: map_add_find_right ensureUserProfileData_verified verifiedOrFalse_def)
  have m: "map_of (setDocMerge (userId p) ?data (profiles w)) (userId p) = Some ?d"
    by (rule map_of_setDocMerge_same)
  have "verifyOtpAccept p e w =
          (Inr (),
           w\<lparr>profiles := setDocMerge (userId p) ?data (profiles w),
             user := Some ([''id'' \<mapsto> FStr (userId p)] ++ ?d),
             localStorage := (localStorage w)
                 (USER_AUTH_STORAGE_KEY \<mapsto> SProfile ([''id'' \<mapsto> FStr (userId p)] ++ ?d),
                  USER_OTP_STORAGE_KEY := None),
             orders := getUserOrders e (userId p),
             inquiries := getUserInquiries e (userId p),
             pendingOtp := None\<rparr>)"
    using assms
    by (simp add: verifyOtpAccept_def ensureUserProfileExists_def getUserProfileData_def m
          loadUserData_def Let_def)
  with v m show ?thesis
    by (intro exI [of _ ?d] conjI)
qed

lemma verifyOtp_accept_after_issue:
  assumes "pendingOtp w = Some p"
    and "now e \<le> expiresAt p"
    and "attempts p < 4"
    and "otpHash p = hashOtp (digest e) TEST_OTP"
    and "setDocError e = None"
    and "\<not> getDocFails e"
  shows "fst (verifyOtp TEST_OTP e w) = Inr ()
       \<and> isAuthenticated (snd (verifyOtp TEST_OTP e w))
       \<and> (\<exists>d. map_of (profiles (snd (verifyOtp TEST_OTP e w))) (userId p) = Some d
              \<and> d ''verified'' = Some (FBool True))"
proof -
  have v: "verifyOtp TEST_OTP e w = verifyOtpAccept p e w"
    using assms(1-4) by (simp add: verifyOtp_def isOtpFormat_TEST_OTP trim_TEST_OTP)
  from verifyOtpAccept_ok [OF assms(5,6), of p w] obtain d where
    d: "d ''verified'' = Some (FBool True)"
    and a: "verifyOtpAccept p e w =
          (Inr (),
           w\<lparr>profiles := setDocMerge (userId p)
                 (ensureUserProfileData (userId p)
                    (Some [''phoneNumber'' \<mapsto> FStr (phoneNumber p), ''verified'' \<mapsto> FBool True])
                    (serverTimestamp e))
                 (profiles w),
             user := Some ([''id'' \<mapsto> FStr (userId p)] ++ d),
             localStorage := (localStorage w)
                 (USER_AUTH_STORAGE_KEY \<mapsto> SProfile ([''id'' \<mapsto> FStr (userId p)] ++ d),
                  USER_OTP_STORAGE_KEY := None),
             orders := getUserOrders e (userId p),
             inquiries := getUserInquiries e (userId p),
             pendingOtp := None\<rparr>)"
    and m: "map_of (setDocMerge (userId p)
                 (ensureUserProfileData (userId p)
                    (Some [''phoneNumber'' \<mapsto> FStr (phoneNumber p), ''verified'' \<mapsto> FBool True])
                    (serverTimestamp e))
                 (profiles w)) (userId p) = Some d"
    by blast
  have "([''id'' \<mapsto> FStr (userId p)] ++ d) ''verified'' = Some (FBool True)"
    using d by (simp add: map_add_find_right)
  then show ?thesis
    using d m by (simp add: v a isAuthenticated_def)
qed

text \<open>
  The claim C4 as written fails exactly at \<open>T\<close> + 10 minutes: the check is
  \<open>Date.now() > expiresAt\<close>, so at that instant the test code is still accepted.
\<close>

theorem expiry_boundary_counterexample:
  "fst (signup dataA env0 world0) = Inr ()
   \<and> now envAtExpiry \<ge> now env0 + 10 * 60 * 1000
   \<and> fst (verifyOtp TEST_OTP envAtExpiry (snd (signup dataA env0 world0))) = Inr ()
   \<and> isAuthenticated (snd (verifyOtp TEST_OTP envAtExpiry (snd (signup dataA env0 world0))))"
proof -
  have "fst (verifyOtp TEST_OTP envAtExpiry worldS) = Inr ()
      \<and> isAuthenticated (snd (verifyOtp TEST_OTP envAtExpiry worldS))
      \<and> (\<exists>d. map_of (profiles (snd (verifyOtp TEST_OTP envAtExpiry worldS))) (userId pend0) = Some d
              \<and> d ''verified'' = Some (FBool True))"
    by (rule verifyOtp_accept_after_issue [OF worldS_pending])
       (simp_all add: envAtExpiry_def env0_fields pend0_def TEST_OTP_def hashOtp_id_test)
  then show ?thesis
    by (simp add: signup_dataA_ok worldS_def envAtExpiry_def env0_fields)
qed

text \<open>
  C1, as the code has it. For a signup input with a valid email, a valid phone number and
  a password of at least 6 characters: when the backend issues an Account Identifier (it
  creates the credential, or it reports the email as registered and authenticates the
  supplied password) and the store takes the profile upsert, \<open>signup\<close> succeeds; and when
  \<open>verifyOtp\<close> with the test code follows no later than the expiry instant, with the same
  digest, an upsert that succeeds and a read that succeeds, it succeeds, the derived
  \<open>isAuthenticated\<close> is true afterwards, and the stored Profile Record of the issued
  identifier has \<open>verified = true\<close>.
\<close>

theorem signup_then_verifyOtp:
  assumes "isValidEmail (sd_email data)"
    and "isValidPhone (sd_phoneNumber data)"
    and "6 \<le> length (sd_password data)"
    and "createUserWithEmailAndPassword e1 (sd_email data) (sd_password data) = Inr ident
         \<or> (\<exists>err. createUserWithEmailAndPassword e1 (sd_email data) (sd_password data) = Inl err
                 \<and> fb_code err = ''auth/email-already-in-use''
                 \<and> signInWithEmailAndPassword e1 (Some (FStr (sd_email data))) (sd_password data) = Inr ident)"
    and "setDocError e1 = None"
    and "now e2 \<le> now e1 + 10 * 60 * 1000"
    and "digest e2 = digest e1"
    and "setDocError e2 = None"
    and "\<not> getDocFails e2"
  shows "fst (signup data e1 w) = Inr ()
       \<and> fst (verifyOtp TEST_OTP e2 (snd (signup data e1 w))) = Inr ()
       \<and> isAuthenticated (snd (verifyOtp TEST_OTP e2 (snd (signup data e1 w))))
       \<and> (\<exists>d. map_of (profiles (snd (verifyOtp TEST_OTP e2 (snd (signup data e1 w))))) ident = Some d
              \<and> d ''verified'' = Some (FBool True))"
proof -
  obtain w' where s: "signup data e1 w = signupIssue data e1 ident w'"
    using assms(1-4) by (auto simp: signup_def Let_def)
  let ?p = "\<lparr>otpHash = hashOtp (digest e1) TEST_OTP, expiresAt = now e1 + 10 * 60 * 1000,
             attempts = 0, userId = ident, phoneNumber = sd_phoneNumber data\<rparr>"
  have ok: "fst (signup data e1 w) = Inr ()"
    and pend: "pendingOtp (snd (signup data e1 w)) = Some ?p"
    by (simp_all add: s signupIssue_ok [OF assms(5)])
  have "fst (verifyOtp TEST_OTP e2 (snd (signup data e1 w))) = Inr ()
       \<and> isAuthenticated (snd (verifyOtp TEST_OTP e2 (snd (signup data e1 w))))
       \<and> (\<exists>d. map_of (profiles (snd (verifyOtp TEST_OTP e2 (snd (signup data e1 w))))) (userId ?p) = Some d
              \<and> d ''verified'' = Some (FBool True))"
    using assms(6-9) by (intro verifyOtp_accept_after_issue [OF pend]) simp_all
  with ok show ?thesis by simp
qed

text \<open>
  The scenario of the specification: signup with phone \<open>9876543210\<close>, email \<open>a@b.com\<close>,
  password \<open>secret1\<close>, then \<open>verifyOtp("123456")\<close>.
\<close>

theorem signup_then_verifyOtp_witness:
  "isValidEmail (sd_email dataA) \<and> isValidPhone (sd_phoneNumber dataA) \<and> 6 \<le> length (sd_password dataA)
   \<and> createUserWithEmailAndPassword env0 (sd_email dataA) (sd_password dataA) = Inr ''u1''
   \<and> setDocError env0 = None \<and> now env0 \<le> now env0 + 10 * 60 * 1000 \<and> \<not> getDocFails env0
   \<and> fst (signup dataA env0 world0) = Inr ()
   \<and> fst (verifyOtp TEST_OTP env0 (snd (signup dataA env0 world0))) = Inr ()
   \<and> isAuthenticated (snd (verifyOtp TEST_OTP env0 (snd (signup dataA env0 world0))))"
proof -
  have h1: "isValidEmail (sd_email dataA)" by (simp add: dataA_def valid_email_a)
  have h2: "isValidPhone (sd_phoneNumber dataA)" by (simp add: dataA_def valid_phone_a)
  have h3: "6 \<le> length (sd_password dataA)" by (simp add: dataA_def)
  have c: "createUserWithEmailAndPassword env0 (sd_email dataA) (sd_password dataA) = Inr ''u1''"
    by (simp add: env0_def)
  then have h4: "createUserWithEmailAndPassword env0 (sd_email dataA) (sd_password dataA) = Inr ''u1''
         \<or> (\<exists>err. createUserWithEmailAndPassword env0 (sd_email dataA) (sd_password dataA) = Inl err
                 \<and> fb_code err = ''auth/email-already-in-use''
                 \<and> signInWithEmailAndPassword env0 (Some (FStr (sd_email dataA))) (sd_password dataA) = Inr ''u1'')"
    by (rule disjI1)
  have h5: "setDocError env0 = None" by (simp add: env0_def)
  have h6: "now env0 \<le> now env0 + 10 * 60 * 1000" by simp
  have h9: "\<not> getDocFails env0" by (simp add: env0_def)
  from signup_then_verifyOtp [OF h1 h2 h3 h4 h5 h6 refl h5 h9, of world0] h1 h2 h3 c h5 h6 h9
  show ?thesis by (intro conjI) simp_all
qed

text \<open>
  The claim as written fails for a valid input whose email is registered already with
  another password: \<open>signup\<close> fails with \<open>AlreadyRegisteredError\<close>, no Pending Verification
  is issued, and the verification that follows finds none.
\<close>

theorem signup_taken_counterexample:
  "isValidEmail (sd_email dataA) \<and> isValidPhone (sd_phoneNumber dataA) \<and> 6 \<le> length (sd_password dataA)
   \<and> fst (signup dataA envTaken world0) = Inl AlreadyRegisteredError
   \<and> fst (verifyOtp TEST_OTP env0 (snd (signup dataA envTaken world0))) = Inl NoPendingError
   \<and> \<not> isAuthenticated (snd (verifyOtp TEST_OTP env0 (snd (signup dataA envTaken world0))))"
  by (simp add: dataA_def valid_email_a valid_phone_a signup_def envTaken_def env0_def world0_def
        Let_def verifyOtp_def isAuthenticated_def)

section \<open>A verification whose profile read finds nothing\<close>

text \<open>
  C10. When the submitted code passes the checks of \<open>verifyOtp\<close> and its hash matches, the
  upsert has been written, and the read of the target identifier's Profile Record that
  follows returns no record, the call still succeeds, discards the Pending Verification
  and removes its trace from \<open>localStorage\<close>; a user that was unset is still unset, and the
  derived \<open>isAuthenticated\<close> is false.
\<close>

theorem verifyOtp_read_miss:
  assumes "pendingOtp w = Some p"
    and "now e \<le> expiresAt p"
    and "attempts p < 4"
    and "isOtpFormat otp"
    and "hashOtp (digest e) (trim otp) = otpHash p"
    and "ensureUserProfileExists (userId p)
           (Some [''phoneNumber'' \<mapsto> FStr (phoneNumber p), ''verified'' \<mapsto> FBool True])
           e (profiles w) = Inr store'"
    and "getUserProfileData (userId p) e store' = None"
    and "user w = None"
  shows "fst (verifyOtp otp e w) = Inr ()
       \<and> pendingOtp (snd (verifyOtp otp e w)) = None
       \<and> localStorage (snd (verifyOtp otp e w)) USER_OTP_STORAGE_KEY = None
       \<and> profiles (snd (verifyOtp otp e w)) = store'
       \<and> user (snd (verifyOtp otp e w)) = None
       \<and> \<not> isAuthenticated (snd (verifyOtp otp e w))"
  using assms
  by (simp add: verifyOtp_def verifyOtpAccept_def loadUserData_def isAuthenticated_def)

text \<open>After the upsert the record exists, so the read finds nothing only when it throws.\<close>

lemma read_after_upsert:
  "getUserProfileData ident e (setDocMerge ident data store) = None \<longleftrightarrow> getDocFails e"
  by (simp add: getUserProfileData_def map_of_setDocMerge_same)

theorem verifyOtp_read_miss_witness:
  "pendingOtp worldP = Some pend0 \<and> now envNoRead \<le> expiresAt pend0 \<and> attempts pend0 < 4
   \<and> isOtpFormat ''123456'' \<and> hashOtp (digest envNoRead) (trim ''123456'') = otpHash pend0
   \<and> getUserProfileData (userId pend0) envNoRead
        (setDocMerge (userId pend0)
           (ensureUserProfileData (userId pend0)
              (Some [''phoneNumber'' \<mapsto> FStr (phoneNumber pend0), ''verified'' \<mapsto> FBool True])
              (serverTimestamp envNoRead))
           (profiles worldP)) = None
   \<and> user worldP = None
   \<and> fst (verifyOtp ''123456'' envNoRead worldP) = Inr ()
   \<and> pendingOtp (snd (verifyOtp ''123456'' envNoRead worldP)) = None
   \<and> \<not> isAuthenticated (snd (verifyOtp ''123456'' envNoRead worldP))"
proof -
  have n: "now envNoRead \<le> expiresAt pend0" and a: "attempts pend0 < 4"
    by (simp_all add: envNoRead_def env0_fields pend0_def)
  have f: "isOtpFormat ''123456''"
    using isOtpFormat_TEST_OTP by (simp add: TEST_OTP_def)
  have t: "trim ''123456'' = ''123456''"
    using trim_TEST_OTP by (simp add: TEST_OTP_def)
  have h: "hashOtp (digest envNoRead) (trim ''123456'') = otpHash pend0"
    by (simp add: t envNoRead_def env0_fields hashOtp_id_test pend0_def)
  have w: "ensureUserProfileExists (userId pend0)
           (Some [''phoneNumber'' \<mapsto> FStr (phoneNumber pend0), ''verified'' \<mapsto> FBool True])
           envNoRead (profiles worldP) =
        Inr (setDocMerge (userId pend0)
           (ensureUserProfileData (userId pend0)
              (Some [''phoneNumber'' \<mapsto> FStr (phoneNumber pend0), ''verified'' \<mapsto> FBool True])
              (serverTimestamp envNoRead))
           (profiles worldP))"
    by (simp add: ensureUserProfileExists_def envNoRead_def env0_fields)
  have r: "getUserProfileData (userId pend0) envNoRead
        (setDocMerge (userId pend0)
           (ensureUserProfileData (userId pend0)
              (Some [''phoneNumber'' \<mapsto> FStr (phoneNumber pend0), ''verified'' \<mapsto> FBool True])
              (serverTimestamp envNoRead))
           (profiles worldP)) = None"
    by (simp add: getUserProfileData_def envNoRead_def)
  have u: "user worldP = None"
    by (simp add: worldP_def world0_def)
  from verifyOtp_read_miss [OF worldP_pending n a f h w r u] worldP_pending n a f h r u
  show ?thesis
    by (intro conjI) simp_all
qed

section \<open>The creation timestamp under the verification upsert\<close>

text \<open>
  C5. A merge-write keeps the fields it does not write (\<open>setDocMerge_keeps_unwritten_field\<close>
  above). But \<open>ensureUserProfileExists\<close> puts \<open>createdAt: serverTimestamp()\<close> into every
  write it makes, so the upsert of a successful code-verification replaces the creation
  timestamp the record got at signup: here the record created at server time 1000 has
  \<open>createdAt\<close> 5000 after the verification at server time 5000.
\<close>

theorem verifyOtp_overwrites_createdAt:
  "map_option (\<lambda>d. d ''createdAt'') (map_of (profiles worldS) ''u1'') = Some (Some (FTime 1000))
   \<and> fst (verifyOtp ''123456'' envVerifyLater worldS) = Inr ()
   \<and> map_option (\<lambda>d. d ''createdAt'')
        (map_of (profiles (snd (verifyOtp ''123456'' envVerifyLater worldS))) ''u1'')
       = Some (Some (FTime 5000))"
proof -
  have c: "map_option (\<lambda>d. d ''createdAt'') (map_of (profiles worldS) ''u1'') = Some (Some (FTime 1000))"
    by (simp add: worldS_def signup_dataA signupIssue_ok env0_fields map_of_setDocMerge_same
          map_add_find_right ensureUserProfileData_createdAt)
  have f: "isOtpFormat ''123456''"
    using isOtpFormat_TEST_OTP by (simp add: TEST_OTP_def)
  have t: "trim ''123456'' = ''123456''"
    using trim_TEST_OTP by (simp add: TEST_OTP_def)
  have v: "verifyOtp ''123456'' envVerifyLater worldS = verifyOtpAccept pend0 envVerifyLater worldS"
    by (simp add: verifyOtp_def worldS_pending f t)
       (simp add: envVerifyLater_def env0_fields pend0_def hashOtp_id_test)
  have "setDocError envVerifyLater = None" and "\<not> getDocFails envVerifyLater"
    and "serverTimestamp envVerifyLater = 5000"
    by (simp_all add: envVerifyLater_def env0_fields)
  then have "fst (verifyOtpAccept pend0 envVerifyLater worldS) = Inr ()"
    and "map_option (\<lambda>d. d ''createdAt'')
          (map_of (profiles (snd (verifyOtpAccept pend0 envVerifyLater worldS))) ''u1'')
        = Some (Some (FTime 5000))"
    by (simp_all add: verifyOtpAccept_def ensureUserProfileExists_def Let_def loadUserData_def
          getUserProfileData_def pend0_def map_of_setDocMerge_same map_add_find_right
          ensureUserProfileData_createdAt split: option.splits)
  then show ?thesis
    by (simp add: v c)
qed

section \<open>Login by phone number\<close>

lemma findUserByPhoneNumber_none:
  assumes "list_all (\<lambda>(k, d). d ''phoneNumber'' \<noteq> Some (FStr phone)) store"
  shows "findUserByPhoneNumber phone e store = None"
proof -
  from assms have "filter (\<lambda>(k, d). d ''phoneNumber'' = Some (FStr phone)) store = []"
    by (auto simp: filter_empty_conv list_all_iff)
  then show ?thesis
    by (simp add: findUserByPhoneNumber_def)
qed

lemma findUserByPhoneNumber_first:
  "\<not> getDocsFails e \<Longrightarrow>
   filter (\<lambda>(k, d). d ''phoneNumber'' = Some (FStr phone)) store = (k, d) # rest \<Longrightarrow>
   \<exists>ident. findUserByPhoneNumber phone e store = Some (ident, d ''email'')"
  by (simp add: findUserByPhoneNumber_def)

text \<open>
  C6, as the code has it. For an input that is not a valid email and is a valid phone
  number:
  \<^item> when no Profile Record has the trimmed input as its phone number, \<open>login\<close> fails with
    \<open>NotFoundError\<close> and leaves the state as it was, so no call to the backend
    authentication has been made;
  \<^item> when the query answers and its first record is \<open>d\<close>, \<open>login\<close> goes on with the
    backend authentication for the \<open>email\<close> field of \<open>d\<close> and the given password;
  \<^item> when moreover that field holds a valid email without white space around it, the
    outcome and the state are those of a \<open>login\<close> with that email and the same password.
\<close>

theorem login_by_phone:
  assumes "\<not> isValidEmail inp"
    and "isValidPhone inp"
  shows "(list_all (\<lambda>(k, d). d ''phoneNumber'' \<noteq> Some (FStr (trim inp))) (profiles w) \<longrightarrow>
            login inp pw e w = (Inl NotFoundError, w)
            \<and> authCalls (snd (login inp pw e w)) = authCalls w)
       \<and> (\<not> getDocsFails e
            \<and> filter (\<lambda>(k, d). d ''phoneNumber'' = Some (FStr (trim inp))) (profiles w) = (k, d) # rest
          \<longrightarrow> login inp pw e w = loginAuthenticate (d ''email'') pw e w)
       \<and> (\<not> getDocsFails e
            \<and> filter (\<lambda>(k, d). d ''phoneNumber'' = Some (FStr (trim inp))) (profiles w) = (k, d) # rest
            \<and> d ''email'' = Some (FStr em) \<and> isValidEmail em \<and> trim em = em
          \<longrightarrow> login inp pw e w = login em pw e w)"
proof -
  have A: "login inp pw e w = (Inl NotFoundError, w)"
    if "list_all (\<lambda>(k, d). d ''phoneNumber'' \<noteq> Some (FStr (trim inp))) (profiles w)"
  proof -
    from that have "findUserByPhoneNumber (trim inp) e (profiles w) = None"
      by (rule findUserByPhoneNumber_none)
    with assms show ?thesis
      by (simp add: login_def)
  qed
  have B: "login inp pw e w = loginAuthenticate (d ''email'') pw e w"
    if "\<not> getDocsFails e"
      and "filter (\<lambda>(k, d). d ''phoneNumber'' = Some (FStr (trim inp))) (profiles w) = (k, d) # rest"
  proof -
    from that obtain ident where
      "findUserByPhoneNumber (trim inp) e (profiles w) = Some (ident, d ''email'')"
      using findUserByPhoneNumber_first by blast
    with assms show ?thesis
      by (simp add: login_def)
  qed
  have C: "login em pw e w = loginAuthenticate (d ''email'') pw e w"
    if "d ''email'' = Some (FStr em)" and "isValidEmail em" and "trim em = em"
    using that by (simp add: login_def)
  show ?thesis
    using A B C by auto
qed

theorem login_by_phone_witness:
  "\<not> isValidEmail ''9876543210'' \<and> isValidPhone ''9876543210''
   \<and> list_all (\<lambda>(k, d). d ''phoneNumber'' \<noteq> Some (FStr (trim ''9876543210''))) (profiles world0)
   \<and> login ''9876543210'' ''secret1'' env0 world0 = (Inl NotFoundError, world0)
   \<and> \<not> getDocsFails env0
   \<and> isValidEmail ''a@b.com'' \<and> trim ''a@b.com'' = ''a@b.com''
   \<and> login ''9876543210'' ''secret1'' env0 worldOne = login ''a@b.com'' ''secret1'' env0 worldOne
   \<and> fst (login ''9876543210'' ''secret1'' env0 worldOne) = Inr ()
   \<and> isAuthenticated (snd (login ''9876543210'' ''secret1'' env0 worldOne))"
proof -
  let ?d = "[''uid'' \<mapsto> FStr ''u1'', ''phoneNumber'' \<mapsto> FStr ''9876543210'',
             ''email'' \<mapsto> FStr ''a@b.com'', ''verified'' \<mapsto> FBool True]"
  have n: "list_all (\<lambda>(k, d). d ''phoneNumber'' \<noteq> Some (FStr (trim ''9876543210''))) (profiles world0)"
    by (simp add: world0_def)
  have q: "\<not> getDocsFails env0"
    by (simp add: env0_fields)
  have r: "filter (\<lambda>(k, d). d ''phoneNumber'' = Some (FStr (trim ''9876543210''))) (profiles worldOne)
            = (''u1'', ?d) # []"
    by (simp add: worldOne_def trim_phone)
  have m: "?d ''email'' = Some (FStr ''a@b.com'')"
    by simp
  have A: "login ''9876543210'' ''secret1'' env0 world0 = (Inl NotFoundError, world0)"
  proof -
    from login_by_phone [OF phone_not_email valid_phone_a, of world0 "''secret1''" env0]
    have "list_all (\<lambda>(k, d). d ''phoneNumber'' \<noteq> Some (FStr (trim ''9876543210''))) (profiles world0)
          \<longrightarrow> login ''9876543210'' ''secret1'' env0 world0 = (Inl NotFoundError, world0)
            \<and> authCalls (snd (login ''9876543210'' ''secret1'' env0 world0)) = authCalls world0"
      by (rule conjunct1)
    then have "login ''9876543210'' ''secret1'' env0 world0 = (Inl NotFoundError, world0)
            \<and> authCalls (snd (login ''9876543210'' ''secret1'' env0 world0)) = authCalls world0"
      using n by (rule mp)
    then show ?thesis
      by (rule conjunct1)
  qed
  have B: "login ''9876543210'' ''secret1'' env0 worldOne = login ''a@b.com'' ''secret1'' env0 worldOne"
  proof -
    from login_by_phone [OF phone_not_email valid_phone_a, of worldOne "''secret1''" env0
            "''u1''" ?d "[]" "''a@b.com''"]
    have "\<not> getDocsFails env0
            \<and> filter (\<lambda>(k, d). d ''phoneNumber'' = Some (FStr (trim ''9876543210''))) (profiles worldOne)
                = (''u1'', ?d) # []
            \<and> ?d ''email'' = Some (FStr ''a@b.com'') \<and> isValidEmail ''a@b.com''
            \<and> trim ''a@b.com'' = ''a@b.com''
          \<longrightarrow> login ''9876543210'' ''secret1'' env0 worldOne = login ''a@b.com'' ''secret1'' env0 worldOne"
      by (elim conjE)
    moreover have "\<not> getDocsFails env0
            \<and> filter (\<lambda>(k, d). d ''phoneNumber'' = Some (FStr (trim ''9876543210''))) (profiles worldOne)
                = (''u1'', ?d) # []
            \<and> ?d ''email'' = Some (FStr ''a@b.com'') \<and> isValidEmail ''a@b.com''
            \<and> trim ''a@b.com'' = ''a@b.com''"
      using q r m valid_email_a trim_email_a by (intro conjI)
    ultimately show ?thesis
      by (rule mp)
  qed
  have C: "login ''a@b.com'' ''secret1'' env0 worldOne
           = loginAuthenticate (Some (FStr ''a@b.com'')) ''secret1'' env0 worldOne"
    by (simp add: login_def valid_email_a trim_email_a)
  have D: "fst (loginAuthenticate (Some (FStr ''a@b.com'')) ''secret1'' env0 worldOne) = Inr ()
         \<and> isAuthenticated (snd (loginAuthenticate (Some (FStr ''a@b.com'')) ''secret1'' env0 worldOne))"
    by (simp add: loginAuthenticate_def env0_fields getUserProfileData_def worldOne_def Let_def
          loadUserData_def isAuthenticated_def map_add_find_right)
  show ?thesis
    by (simp add: phone_not_email valid_phone_a n A q valid_email_a trim_email_a B C D)
qed

text \<open>
  The claim as written fails when the email on file is not a valid email, which the
  lookup does not check: with the email saved empty, the login by phone number asks the
  backend to authenticate the empty email, while a login with that email is refused as
  invalid input before any backend call.
\<close>

theorem login_by_phone_counterexample:
  "\<not> isValidEmail ''9876543210'' \<and> isValidPhone ''9876543210''
   \<and> map_option (\<lambda>d. (d ''phoneNumber'', d ''email'')) (map_of (profiles worldEdited) ''u1'')
       = Some (Some (FStr ''9876543210''), Some (FStr ''''))
   \<and> fst (login ''9876543210'' ''secret1'' envReject worldEdited)
       = Inl (BackendError ''Firebase: Error (auth/invalid-email).'')
   \<and> authCalls (snd (login ''9876543210'' ''secret1'' envReject worldEdited))
       = [SignIn (Some (FStr '''')) ''secret1'']
   \<and> login '''' ''secret1'' envReject worldEdited = (Inl InvalidInputError, worldEdited)
   \<and> authCalls (snd (login '''' ''secret1'' envReject worldEdited)) = []"
proof -
  have f: "findUserByPhoneNumber ''9876543210'' envReject (profiles worldEdited)
             = Some (FStr ''u1'', Some (FStr ''''))"
    by (simp add: findUserByPhoneNumber_def envReject_def env0_fields worldEdited_def)
  have l: "login ''9876543210'' ''secret1'' envReject worldEdited
             = loginAuthenticate (Some (FStr '''')) ''secret1'' envReject worldEdited"
    by (simp add: login_def phone_not_email valid_phone_a trim_phone f)
  have a: "loginAuthenticate (Some (FStr '''')) ''secret1'' envReject worldEdited
             = (Inl (BackendError ''Firebase: Error (auth/invalid-email).''),
                worldEdited\<lparr>authCalls := [SignIn (Some (FStr '''')) ''secret1'']\<rparr>)"
    by (simp add: loginAuthenticate_def envReject_def wrapMessage_def worldEdited_def world0_def Let_def)
  have e: "login '''' ''secret1'' envReject worldEdited = (Inl InvalidInputError, worldEdited)"
    by (simp add: login_def empty_not_email empty_not_phone)
  have c: "authCalls worldEdited = []"
    by (simp add: worldEdited_def world0_def)
  have m: "map_option (\<lambda>d. (d ''phoneNumber'', d ''email'')) (map_of (profiles worldEdited) ''u1'')
       = Some (Some (FStr ''9876543210''), Some (FStr ''''))"
    by (simp add: worldEdited_def)
  show ?thesis
    by (simp add: phone_not_email valid_phone_a l a e c m)
qed

section \<open>The admin gate\<close>

lemma worldAdmin_authenticated:
  "ownerAuthenticated worldAdmin \<and> ownerUserId worldAdmin = Some ADMIN_UID
   \<and> localStorage worldAdmin OWNER_AUTH_STORAGE_KEY = Some (SText ''true'')"
  by (simp add: worldAdmin_def ownerLogin_def envAdmin_def env0_def world0_def Let_def
        OWNER_AUTH_STORAGE_KEY_def OWNER_UID_KEY_def)

text \<open>
  C2, as the code has it. A transition of the admin flow takes a state that is not
  admin-authenticated to one that is only when it is
  \<^item> a \<open>login\<close> for which the backend resolves the trimmed credentials to the fixed
    privileged identifier, or
  \<^item> an auth-state notification for that identifier, while the cached flag is \<open>"true"\<close> and
    the Profile Record of that identifier carries the privilege, or
  \<^item> a \<open>storage\<close> event that sets the cached flag to \<open>"true"\<close>.
  The initial state of the provider takes the flag from the cache as well (\<open>ownerMount\<close>).
\<close>

theorem owner_authenticated_only_by:
  assumes "\<not> ownerAuthenticated w"
    and "ownerAuthenticated (ownerStep ev w)"
  shows "(\<exists>email password e. ev = EvLogin email password e
            \<and> signInWithEmailAndPassword e (Some (FStr (trim email))) (trim password) = Inr ADMIN_UID)
       \<or> (\<exists>e d. ev = EvAuthState (Some ADMIN_UID) e
            \<and> localStorage w OWNER_AUTH_STORAGE_KEY = Some (SText ''true'')
            \<and> map_of (profiles w) ADMIN_UID = Some d \<and> isAdminDoc d)
       \<or> ev = EvStorage OWNER_AUTH_STORAGE_KEY (Some ''true'')"
proof (cases ev)
  case (EvStorage key newValue)
  with assms show ?thesis
    by (auto simp: handleStorage_def Let_def split: if_splits)
next
  case (EvAuthState firebaseUser e)
  with assms show ?thesis
    by (auto simp: ownerAuthStateChanged_def split: option.splits if_splits)
next
  case (EvLogin email password e)
  with assms show ?thesis
    by (auto simp: ownerLogin_def Let_def split: sum.splits if_splits option.splits)
next
  case EvLogout
  with assms show ?thesis
    by (simp add: ownerLogout_def)
qed

theorem owner_authenticated_only_by_witness:
  "\<not> ownerAuthenticated world0
   \<and> ownerAuthenticated (ownerStep evAdminLogin world0)
   \<and> ((\<exists>email password e. evAdminLogin = EvLogin email password e
            \<and> signInWithEmailAndPassword e (Some (FStr (trim email))) (trim password) = Inr ADMIN_UID)
       \<or> (\<exists>e d. evAdminLogin = EvAuthState (Some ADMIN_UID) e
            \<and> localStorage world0 OWNER_AUTH_STORAGE_KEY = Some (SText ''true'')
            \<and> map_of (profiles world0) ADMIN_UID = Some d \<and> isAdminDoc d)
       \<or> evAdminLogin = EvStorage OWNER_AUTH_STORAGE_KEY (Some ''true''))"
proof -
  have h1: "\<not> ownerAuthenticated world0"
    by (simp add: world0_def)
  have h2: "ownerAuthenticated (ownerStep evAdminLogin world0)"
    using worldAdmin_authenticated by (simp add: evAdminLogin_def worldAdmin_def)
  from owner_authenticated_only_by [OF h1 h2] h1 h2 show ?thesis
    by (intro conjI)
qed

text \<open>
  The claim as written fails: a \<open>storage\<close> event for the cached flag makes the admin state
  authenticated without any call to the backend, and a second one for the cached
  identifier makes the derived \<open>isAdmin\<close> true.
\<close>

theorem storage_event_counterexample:
  "\<not> ownerAuthenticated world0
   \<and> authCalls (ownerStep (EvStorage OWNER_AUTH_STORAGE_KEY (Some ''true'')) world0) = []
   \<and> ownerAuthenticated (ownerStep (EvStorage OWNER_AUTH_STORAGE_KEY (Some ''true'')) world0)
   \<and> isAdmin (ownerStep (EvStorage OWNER_UID_KEY (Some ADMIN_UID))
                (ownerStep (EvStorage OWNER_AUTH_STORAGE_KEY (Some ''true'')) world0))"
  by (simp add: world0_def handleStorage_def isAdmin_def OWNER_AUTH_STORAGE_KEY_def OWNER_UID_KEY_def)

section \<open>An admin login for another account\<close>

text \<open>
  C7, as the code has it. When the backend authenticates the credentials of an admin
  \<open>login\<close> and resolves them to an identifier other than the fixed privileged one, and the
  sign-out completes, the flow signs out of the backend right after the authentication
  and answers \<open>false\<close> with the not-authorized notice. Apart from the two backend calls the
  state is the one before: the admin-authenticated flag, the cached identifier and
  \<open>localStorage\<close> are untouched, so an admin state that was not authenticated is still not
  authenticated.
\<close>

theorem ownerLogin_not_admin:
  assumes "signInWithEmailAndPassword e (Some (FStr (trim email))) (trim password) = Inr ident"
    and "ident \<noteq> ADMIN_UID"
    and "\<not> signOutFails e"
  shows "fst (ownerLogin email password e w) = NotAuthorizedError
       \<and> \<not> returned (fst (ownerLogin email password e w))
       \<and> snd (ownerLogin email password e w) =
           w\<lparr>authCalls := authCalls w @ [SignIn (Some (FStr (trim email))) (trim password), SignOut]\<rparr>
       \<and> ownerAuthenticated (snd (ownerLogin email password e w)) = ownerAuthenticated w
       \<and> ownerUserId (snd (ownerLogin email password e w)) = ownerUserId w
       \<and> localStorage (snd (ownerLogin email password e w)) = localStorage w"
  using assms by (simp add: ownerLogin_def Let_def returned_def)

theorem ownerLogin_not_admin_witness:
  "signInWithEmailAndPassword env0 (Some (FStr (trim ''c@d.com''))) (trim ''secret1'') = Inr ''u1''
   \<and> ''u1'' \<noteq> ADMIN_UID \<and> \<not> signOutFails env0
   \<and> fst (ownerLogin ''c@d.com'' ''secret1'' env0 world0) = NotAuthorizedError
   \<and> \<not> ownerAuthenticated (snd (ownerLogin ''c@d.com'' ''secret1'' env0 world0))
   \<and> localStorage (snd (ownerLogin ''c@d.com'' ''secret1'' env0 world0)) OWNER_AUTH_STORAGE_KEY = None"
proof -
  have s: "signInWithEmailAndPassword env0 (Some (FStr (trim ''c@d.com''))) (trim ''secret1'') = Inr ''u1''"
    by (simp add: env0_def)
  have so: "\<not> signOutFails env0"
    by (simp add: env0_def)
  from ownerLogin_not_admin [OF s u1_not_admin so, of world0] s so u1_not_admin show ?thesis
    by (simp add: world0_def)
qed

text \<open>
  The claim as written fails when the admin state is authenticated before the call: after
  a successful admin login, a login for another account is refused, and the Admin Session
  Record is still set.
\<close>

theorem ownerLogin_not_admin_counterexample:
  "signInWithEmailAndPassword env0 (Some (FStr (trim ''c@d.com''))) (trim ''secret1'') = Inr ''u1''
   \<and> ''u1'' \<noteq> ADMIN_UID
   \<and> fst (ownerLogin ''c@d.com'' ''secret1'' env0 worldAdmin) = NotAuthorizedError
   \<and> ownerAuthenticated (snd (ownerLogin ''c@d.com'' ''secret1'' env0 worldAdmin))
   \<and> isAdmin (snd (ownerLogin ''c@d.com'' ''secret1'' env0 worldAdmin))
   \<and> localStorage (snd (ownerLogin ''c@d.com'' ''secret1'' env0 worldAdmin)) OWNER_AUTH_STORAGE_KEY
        = Some (SText ''true'')"
proof -
  have s: "signInWithEmailAndPassword env0 (Some (FStr (trim ''c@d.com''))) (trim ''secret1'') = Inr ''u1''"
    by (simp add: env0_def)
  have so: "\<not> signOutFails env0"
    by (simp add: env0_def)
  have "fst (ownerLogin ''c@d.com'' ''secret1'' env0 worldAdmin) = NotAuthorizedError"
    and "snd (ownerLogin ''c@d.com'' ''secret1'' env0 worldAdmin) =
       worldAdmin\<lparr>authCalls := authCalls worldAdmin @
          [SignIn (Some (FStr (trim ''c@d.com''))) (trim ''secret1''), SignOut]\<rparr>"
    using s so u1_not_admin by (simp_all add: ownerLogin_def Let_def)
  with s u1_not_admin worldAdmin_authenticated show ?thesis
    by (simp add: isAdmin_def)
qed

end
